theory Spec2Isabelle
  imports Complex_Main "HOL-Library.Product_Lexorder"
begin

section \<open>SQL values\<close>

text \<open>
  The program is the PL/pgSQL of \<^verbatim>\<open>initial_schema_no_row_returned.sql\<close> (and, for the
  driver search, \<^verbatim>\<open>1_init_schema.sql\<close>).  A nullable SQL value is an \<open>option\<close>, with
  \<open>None\<close> for NULL.  \<open>DECIMAL\<close> is modelled by exact rationals (without the special values
  NaN and Infinity), \<open>INTEGER\<close> by \<open>int\<close>,
  \<open>UUID\<close> by \<open>nat\<close> (only equality and the order of \<open>ORDER BY\<close> are used), a timestamp by
  its epoch in seconds, and a \<open>GEOGRAPHY\<close> point by its pair (longitude, latitude).
\<close>

type_synonym dec = "rat option"
type_synonym sqlint = "int option"
type_synonym sqlbool = "bool option"
type_synonym uuid = nat
type_synonym timestamp = rat
type_synonym geography = "rat \<times> rat"

datatype error =
    ConfigNotFound string
  | DivisionByZero
  | IntegerOutOfRange
  | NegativeLimit
  | NotADriver "uuid option"
  | InvalidParameterValue string
  | NumericValueOutOfRange string
  | NotNullViolation string
  | CheckViolation string
  | UniqueViolation string
  | ForeignKeyViolation string

definition ebind :: "error + 'a \<Rightarrow> ('a \<Rightarrow> error + 'b) \<Rightarrow> error + 'b" where
  "ebind m f = (case m of Inl e \<Rightarrow> Inl e | Inr v \<Rightarrow> f v)"

text \<open>Three-valued logic; an \<open>IF\<close> or a \<open>WHERE\<close> takes a row only when the condition is TRUE.\<close>

definition sql_not :: "sqlbool \<Rightarrow> sqlbool" where
  "sql_not a = map_option Not a"

definition sql_and :: "sqlbool \<Rightarrow> sqlbool \<Rightarrow> sqlbool" where
  "sql_and a b =
     (if a = Some False \<or> b = Some False then Some False
      else if a = Some True \<and> b = Some True then Some True
      else None)"

definition sql_or :: "sqlbool \<Rightarrow> sqlbool \<Rightarrow> sqlbool" where
  "sql_or a b =
     (if a = Some True \<or> b = Some True then Some True
      else if a = Some False \<and> b = Some False then Some False
      else None)"

definition is_true :: "sqlbool \<Rightarrow> bool" where
  "is_true a = (a = Some True)"

definition sql_gt :: "('a::linorder) option \<Rightarrow> 'a option \<Rightarrow> sqlbool" where
  "sql_gt a b = (case (a, b) of (Some x, Some y) \<Rightarrow> Some (y < x) | _ \<Rightarrow> None)"

definition sql_lt :: "('a::linorder) option \<Rightarrow> 'a option \<Rightarrow> sqlbool" where
  "sql_lt a b = (case (a, b) of (Some x, Some y) \<Rightarrow> Some (x < y) | _ \<Rightarrow> None)"

definition sql_ge :: "('a::linorder) option \<Rightarrow> 'a option \<Rightarrow> sqlbool" where
  "sql_ge a b = (case (a, b) of (Some x, Some y) \<Rightarrow> Some (y \<le> x) | _ \<Rightarrow> None)"


definition sql_eq :: "'a option \<Rightarrow> 'a option \<Rightarrow> sqlbool" where
  "sql_eq a b = (case (a, b) of (Some x, Some y) \<Rightarrow> Some (x = y) | _ \<Rightarrow> None)"

text \<open>Arithmetic is strict in NULL; a division by zero raises.\<close>

definition n_add :: "dec \<Rightarrow> dec \<Rightarrow> dec" where
  "n_add a b = (case (a, b) of (Some x, Some y) \<Rightarrow> Some (x + y) | _ \<Rightarrow> None)"

definition n_sub :: "dec \<Rightarrow> dec \<Rightarrow> dec" where
  "n_sub a b = (case (a, b) of (Some x, Some y) \<Rightarrow> Some (x - y) | _ \<Rightarrow> None)"

definition n_mul :: "dec \<Rightarrow> dec \<Rightarrow> dec" where
  "n_mul a b = (case (a, b) of (Some x, Some y) \<Rightarrow> Some (x * y) | _ \<Rightarrow> None)"

definition n_neg :: "dec \<Rightarrow> dec" where
  "n_neg a = map_option uminus a"

definition n_abs :: "dec \<Rightarrow> dec" where
  "n_abs a = map_option abs a"

definition n_div :: "dec \<Rightarrow> dec \<Rightarrow> error + dec" where
  "n_div a b =
     (case (a, b) of
        (Some x, Some y) \<Rightarrow> if y = 0 then Inl DivisionByZero else Inr (Some (x / y))
      | _ \<Rightarrow> Inr None)"

definition NULLIF :: "dec \<Rightarrow> rat \<Rightarrow> dec" where
  "NULLIF a v = (if a = Some v then None else a)"

text \<open>\<open>LEAST\<close> and \<open>GREATEST\<close> ignore NULL arguments; they are NULL only when all are.\<close>

definition LEAST2 :: "dec \<Rightarrow> dec \<Rightarrow> dec" where
  "LEAST2 a b =
     (case (a, b) of
        (Some x, Some y) \<Rightarrow> Some (min x y)
      | (Some x, None) \<Rightarrow> Some x
      | (None, y) \<Rightarrow> y)"

definition GREATEST2 :: "dec \<Rightarrow> dec \<Rightarrow> dec" where
  "GREATEST2 a b =
     (case (a, b) of
        (Some x, Some y) \<Rightarrow> Some (max x y)
      | (Some x, None) \<Rightarrow> Some x
      | (None, y) \<Rightarrow> y)"

text \<open>Rounding to the nearest integer, halves away from zero, as \<open>numeric\<close> does.\<close>

definition round_half_away :: "rat \<Rightarrow> int" where
  "round_half_away x = (if 0 \<le> x then \<lfloor>x + 1 / 2\<rfloor> else - \<lfloor>- x + 1 / 2\<rfloor>)"

definition ROUND :: "dec \<Rightarrow> nat \<Rightarrow> dec" where
  "ROUND a n = map_option (\<lambda>x. of_int (round_half_away (x * 10 ^ n)) / 10 ^ n) a"

definition cast_integer :: "dec \<Rightarrow> error + sqlint" where
  "cast_integer a =
     (case a of
        None \<Rightarrow> Inr None
      | Some x \<Rightarrow>
          (let i = round_half_away x
           in if i < - 2147483648 \<or> 2147483647 < i then Inl IntegerOutOfRange
              else Inr (Some i)))"

definition int_dec :: "sqlint \<Rightarrow> dec" where
  "int_dec i = map_option of_int i"

text \<open>
  Storing into a \<open>DECIMAL(p, s)\<close> column rounds to \<open>s\<close> places and raises
  \<open>numeric field overflow\<close> when the rounded value needs more than \<open>p - s\<close> digits before
  the point.
\<close>

definition store_decimal :: "nat \<Rightarrow> nat \<Rightarrow> dec \<Rightarrow> error + dec" where
  "store_decimal p s a =
     (case ROUND a s of
        None \<Rightarrow> Inr None
      | Some x \<Rightarrow>
          if 10 ^ (p - s) \<le> \<bar>x\<bar> then Inl (NumericValueOutOfRange ''numeric field overflow'')
          else Inr (Some x))"

text \<open>
  \<open>ST_Distance\<close> (PostGIS, metres between two geographies), the geography that
  \<open>ST_SetSRID(ST_MakePoint(lng, lat), 4326)::geography\<close> makes of two stored coordinates, and
  the text that PostgreSQL prints for a \<open>numeric\<close> value are not code of this repository:
  the environment supplies them.  \<open>ST_Distance\<close> and \<open>ST_MakePoint\<close> are strict in NULL.
\<close>

record env =
  ST_Distance :: "geography \<Rightarrow> geography \<Rightarrow> rat"
  ST_MakePoint :: "rat \<Rightarrow> rat \<Rightarrow> geography"
  numeric_out :: "rat \<Rightarrow> string"

text \<open>The text of an \<open>INTEGER\<close>.\<close>

fun digits :: "nat \<Rightarrow> string" where
  "digits n =
     (if n < 10 then [''0123456789'' ! n]
      else digits (n div 10) @ [''0123456789'' ! (n mod 10)])"

declare digits.simps [simp del]

definition int_out :: "int \<Rightarrow> string" where
  "int_out i = (if i < 0 then CHR ''-'' # digits (nat (- i)) else digits (nat i))"

text \<open>
  \<open>FORMAT(formatstr, args ...)\<close>.  PostgreSQL reads the format string from the left.
  \<open>%%\<close> gives a percent sign; \<open>%s\<close> takes the next argument as text, a NULL argument as
  the empty string, and raises when no argument is left; a percent sign at the end of the
  string raises; and a percent sign followed by any character other than a conversion
  type raises \<open>unrecognized format() type specifier\<close> (SQLSTATE 22023).  There is no
  \<open>printf\<close>-style precision: in \<open>%.2f\<close> the character after the percent sign is a
  point, which is no conversion type.  Every format string of the schema is a literal
  without argument position, flag or width, and none uses \<open>%I\<close> or \<open>%L\<close>; these forms
  are not modelled.
\<close>

datatype fmt_arg = ArgDec dec | ArgInt sqlint | ArgText "string option"

fun arg_text :: "env \<Rightarrow> fmt_arg \<Rightarrow> string" where
  "arg_text E (ArgText s) = (case s of None \<Rightarrow> [] | Some t \<Rightarrow> t)"
| "arg_text E (ArgInt i) = (case i of None \<Rightarrow> [] | Some n \<Rightarrow> int_out n)"
| "arg_text E (ArgDec x) = (case x of None \<Rightarrow> [] | Some q \<Rightarrow> numeric_out E q)"

fun FORMAT :: "env \<Rightarrow> string \<Rightarrow> fmt_arg list \<Rightarrow> error + string" where
  "FORMAT E [] args = Inr []"
| "FORMAT E [c] args =
     (if c = CHR ''%'' then Inl (InvalidParameterValue ''unterminated format() type specifier'')
      else Inr [c])"
| "FORMAT E (c # k # cs) args =
     (if c \<noteq> CHR ''%'' then ebind (FORMAT E (k # cs) args) (\<lambda>r. Inr (c # r))
      else if k = CHR ''%'' then ebind (FORMAT E cs args) (\<lambda>r. Inr (CHR ''%'' # r))
      else if k \<noteq> CHR ''s''
      then Inl (InvalidParameterValue ''unrecognized format() type specifier'')
      else (case args of
              [] \<Rightarrow> Inl (InvalidParameterValue ''too few arguments for format()'')
            | a # rest \<Rightarrow> ebind (FORMAT E cs rest) (\<lambda>r. Inr (arg_text E a @ r))))"

declare FORMAT.simps [simp del]

definition st_distance :: "env \<Rightarrow> geography option \<Rightarrow> geography option \<Rightarrow> dec" where
  "st_distance E a b =
     (case (a, b) of (Some x, Some y) \<Rightarrow> Some (ST_Distance E x y) | _ \<Rightarrow> None)"

datatype jsonb = JNull | JNum rat | JUuid uuid | JObject "(string \<times> jsonb) list"

definition jdec :: "dec \<Rightarrow> jsonb" where
  "jdec a = (case a of None \<Rightarrow> JNull | Some x \<Rightarrow> JNum x)"


section \<open>Tables\<close>

text \<open>
  A table is the list of its rows in storage order.  Columns that no modelled function
  reads (addresses, \<open>updated_at\<close>, fares and the like) are left out; a column name that
  several tables share carries a prefix for its table.
\<close>

datatype pool_status =
  WAITING_FOR_RIDERS | WAITING_FOR_DRIVER | READY_TO_START | STARTED | COMPLETED | CANCELLED

datatype ride_status =
  CREATING_POOL | IN_POOL | DRIVER_ASSIGNED | RIDE_STARTED | RIDE_COMPLETED | RIDE_CANCELLED

datatype vehicle_type = CAR | CNG

datatype gender_restriction = FEMALE_ONLY | ANY

record config =
  cfg_id :: uuid
  config_name :: string
  min_viable_score :: rat
  destination_proximity_weight :: dec
  pickup_proximity_weight :: dec
  route_overlap_weight :: dec
  time_alignment_weight :: dec
  detour_penalty_weight :: dec
  max_destination_distance_km :: dec
  max_pickup_distance_km :: dec
  min_route_overlap_percent :: dec
  max_detour_percent :: dec
  max_time_difference_minutes :: sqlint
  front_route_only :: sqlbool
  max_off_route_distance_km :: dec
  cfg_is_active :: sqlbool

record pool =
  pool_id :: uuid
  pool_driver_id :: "uuid option"
  pool_vehicle_id :: "uuid option"
  status :: pool_status
  pool_vehicle_type :: vehicle_type
  pool_gender_restriction :: "gender_restriction option"
  current_passengers :: int
  max_passengers :: int
  min_passengers_to_start :: int
  viability_score :: dec
  score_breakdown :: "jsonb option"
  scoring_config_id :: "uuid option"
  pool_deleted_at :: "timestamp option"

record ride =
  ride_id :: uuid
  ride_user_id :: uuid
  ride_pool_id :: "uuid option"
  pickup_location :: "geography option"
  dropoff_location :: "geography option"
  preferred_vehicle_type :: vehicle_type
  preferred_gender_restriction :: "gender_restriction option"
  ride_status :: ride_status
  is_on_front_route :: sqlbool
  ride_created_at :: "timestamp option"
  cancelled_reason :: "string option"

record pool_member =
  member_id :: uuid
  member_pool_id :: uuid
  member_user_id :: uuid
  member_ride_id :: uuid
  joined_at :: "timestamp option"
  left_at :: "timestamp option"
  join_score :: dec
  join_score_breakdown :: "jsonb option"
  is_front_route_passenger :: sqlbool

record notification =
  note_user_id :: uuid
  title :: string
  message :: string
  note_type :: string
  metadata :: jsonb

record vehicle_location =
  loc_id :: uuid
  loc_vehicle_id :: uuid
  loc_driver_id :: uuid
  loc_pool_id :: "uuid option"
  current_lat :: rat
  current_lng :: rat
  current_location :: "geography option"
  heading :: dec
  speed_kmh :: dec
  accuracy_meters :: sqlint
  loc_is_active :: sqlbool
  is_available :: sqlbool
  recorded_at :: "timestamp option"

record vehicle =
  vehicle_id :: uuid
  vehicle_driver_id :: uuid
  veh_vehicle_type :: vehicle_type
  vehicle_number :: string
  veh_is_active :: sqlbool
  veh_deleted_at :: "timestamp option"

record user =
  user_id :: uuid
  is_driver :: sqlbool
  average_rating :: dec
  total_rides :: sqlint
  user_deleted_at :: "timestamp option"

record db =
  pool_scoring_config :: "config list"
  pools :: "pool list"
  rides :: "ride list"
  pool_members :: "pool_member list"
  notifications :: "notification list"
  vehicle_locations :: "vehicle_location list"
  vehicles :: "vehicle list"
  users :: "user list"

text \<open>
  \<open>SELECT ... INTO v\<close> takes the first row found; when there is none every field of \<open>v\<close>
  is NULL.  A record variable is therefore an optional row, and \<open>fld\<close> reads a field of it.
\<close>

definition fld :: "('r \<Rightarrow> 'a option) \<Rightarrow> 'r option \<Rightarrow> 'a option" where
  "fld f v = (case v of None \<Rightarrow> None | Some r \<Rightarrow> f r)"

definition select_config :: "db \<Rightarrow> string \<Rightarrow> config option" where
  "select_config d p_config_name =
     find (\<lambda>c. config_name c = p_config_name \<and> is_true (cfg_is_active c)) (pool_scoring_config d)"

definition select_ride :: "db \<Rightarrow> uuid option \<Rightarrow> ride option" where
  "select_ride d rid = find (\<lambda>r. Some (ride_id r) = rid) (rides d)"

section \<open>Core scoring functions\<close>

definition calculate_destination_proximity_score :: "dec \<Rightarrow> dec \<Rightarrow> dec \<Rightarrow> error + dec" where
  "calculate_destination_proximity_score distance_km max_distance_km weight =
     (if is_true (sql_gt distance_km max_distance_km) then Inr (Some 0)
      else ebind (n_div distance_km max_distance_km)
             (\<lambda>q. Inr (n_mul weight (n_sub (Some 1) q))))"

definition calculate_pickup_proximity_score :: "dec \<Rightarrow> dec \<Rightarrow> dec \<Rightarrow> error + dec" where
  "calculate_pickup_proximity_score distance_km max_distance_km weight =
     (if is_true (sql_gt distance_km max_distance_km) then Inr (Some 0)
      else ebind (n_div distance_km max_distance_km)
             (\<lambda>q. Inr (n_mul weight (n_mul (n_sub (Some 1) q) (n_sub (Some 1) q)))))"

definition calculate_route_overlap_score :: "dec \<Rightarrow> dec \<Rightarrow> dec \<Rightarrow> error + dec" where
  "calculate_route_overlap_score overlap_percent min_overlap_percent weight =
     (if is_true (sql_lt overlap_percent min_overlap_percent) then Inr (Some 0)
      else ebind (n_div (n_sub overlap_percent min_overlap_percent)
                        (n_sub (Some 100) min_overlap_percent))
             (\<lambda>q. Inr (n_mul weight q)))"

definition calculate_time_alignment_score :: "sqlint \<Rightarrow> sqlint \<Rightarrow> dec \<Rightarrow> error + dec" where
  "calculate_time_alignment_score time_diff_minutes max_time_diff_minutes weight =
     (if is_true (sql_gt time_diff_minutes max_time_diff_minutes) then Inr (Some 0)
      else ebind (n_div (int_dec time_diff_minutes) (int_dec max_time_diff_minutes))
             (\<lambda>q. Inr (n_mul weight (n_sub (Some 1) q))))"

definition calculate_detour_penalty :: "dec \<Rightarrow> dec \<Rightarrow> dec \<Rightarrow> error + dec" where
  "calculate_detour_penalty detour_percent max_detour_percent' weight =
     (if is_true (sql_gt detour_percent max_detour_percent') then Inr (n_neg weight)
      else ebind (n_div detour_percent max_detour_percent')
             (\<lambda>q. Inr (n_mul (n_neg weight) q)))"


section \<open>Master scoring function\<close>

record score_result =
  total_score :: dec
  is_viable :: sqlbool
  breakdown :: jsonb
  rejection_reason :: "string option"

definition km :: "dec \<Rightarrow> dec" where
  "km metres = map_option (\<lambda>m. m / 1000) metres"

text \<open>
  The two ways the function updates \<open>v_rejection_reason\<close> when a threshold test \<open>b\<close> holds:
  \<open>v := msg\<close> for the first test, \<open>v := COALESCE(v || E'\n', '') || msg\<close> for the others.
  The message is a call of \<open>FORMAT\<close>, made only when the test holds; when it raises, so
  does the function.
\<close>

definition assign_reason :: "string option \<Rightarrow> bool \<Rightarrow> error + string \<Rightarrow> error + string option" where
  "assign_reason v b msg = (if b then ebind msg (\<lambda>s. Inr (Some s)) else Inr v)"

definition extend_reason :: "string option \<Rightarrow> bool \<Rightarrow> error + string \<Rightarrow> error + string option" where
  "extend_reason v b msg =
     (if b
      then ebind msg
             (\<lambda>s. Inr (Some ((case v of None \<Rightarrow> [] | Some t \<Rightarrow> t @ [CHR 0x0A]) @ s)))
      else Inr v)"

text \<open>The values the function assigns to its variables of the same names.\<close>

definition v_dest_distance_km :: "env \<Rightarrow> ride option \<Rightarrow> ride option \<Rightarrow> dec" where
  "v_dest_distance_km E v_ride1 v_ride2 =
     km (st_distance E (fld dropoff_location v_ride1) (fld dropoff_location v_ride2))"

definition v_pickup_distance_km :: "env \<Rightarrow> ride option \<Rightarrow> ride option \<Rightarrow> dec" where
  "v_pickup_distance_km E v_ride1 v_ride2 =
     km (st_distance E (fld pickup_location v_ride1) (fld pickup_location v_ride2))"

definition v_direct_distance :: "env \<Rightarrow> ride option \<Rightarrow> dec" where
  "v_direct_distance E v_ride1 =
     km (st_distance E (fld pickup_location v_ride1) (fld dropoff_location v_ride1))"

definition v_combined_distance :: "env \<Rightarrow> ride option \<Rightarrow> ride option \<Rightarrow> dec" where
  "v_combined_distance E v_ride1 v_ride2 =
     km (n_add
           (n_add (st_distance E (fld pickup_location v_ride1) (fld pickup_location v_ride2))
                  (st_distance E (fld pickup_location v_ride2) (fld dropoff_location v_ride2)))
           (st_distance E (fld dropoff_location v_ride2) (fld dropoff_location v_ride1)))"

definition v_route_overlap_percent :: "env \<Rightarrow> ride option \<Rightarrow> ride option \<Rightarrow> error + dec" where
  "v_route_overlap_percent E v_ride1 v_ride2 =
     ebind (n_div (v_direct_distance E v_ride1) (NULLIF (v_combined_distance E v_ride1 v_ride2) 0))
       (\<lambda>q. Inr (LEAST2 (Some 100) (n_mul q (Some 100))))"

definition v_time_diff_minutes :: "ride option \<Rightarrow> ride option \<Rightarrow> error + sqlint" where
  "v_time_diff_minutes v_ride1 v_ride2 =
     cast_integer
       (n_abs (map_option (\<lambda>s. s / 60)
                 (n_sub (fld ride_created_at v_ride1) (fld ride_created_at v_ride2))))"

text \<open>
  \<open>v_direct_route_km\<close> and \<open>v_pooled_route_km\<close> are assigned the same expressions as
  \<open>v_direct_distance\<close> and \<open>v_combined_distance\<close>.
\<close>

definition v_detour_percent :: "env \<Rightarrow> ride option \<Rightarrow> ride option \<Rightarrow> error + dec" where
  "v_detour_percent E v_ride1 v_ride2 =
     ebind (n_div (n_sub (v_combined_distance E v_ride1 v_ride2) (v_direct_distance E v_ride1))
                  (NULLIF (v_direct_distance E v_ride1) 0))
       (\<lambda>q. Inr (n_mul q (Some 100)))"

definition score_breakdown_json ::
  "config \<Rightarrow> dec \<Rightarrow> dec \<Rightarrow> dec \<Rightarrow> dec \<Rightarrow> dec \<Rightarrow> dec \<Rightarrow> dec \<Rightarrow> sqlint \<Rightarrow> dec \<Rightarrow> dec \<Rightarrow> dec \<Rightarrow> jsonb" where
  "score_breakdown_json v_config v_dest_score dest_km v_pickup_score pickup_km
       v_overlap_score overlap_percent v_time_score time_diff_minutes
       v_detour_score detour_percent v_total_score =
     JObject
      [(''destination_proximity'', JObject
          [(''score'', jdec (ROUND v_dest_score 2)),
           (''distance_km'', jdec (ROUND dest_km 2)),
           (''max_allowed_km'', jdec (max_destination_distance_km v_config))]),
       (''pickup_proximity'', JObject
          [(''score'', jdec (ROUND v_pickup_score 2)),
           (''distance_km'', jdec (ROUND pickup_km 2)),
           (''max_allowed_km'', jdec (max_pickup_distance_km v_config))]),
       (''route_overlap'', JObject
          [(''score'', jdec (ROUND v_overlap_score 2)),
           (''overlap_percent'', jdec (ROUND overlap_percent 1)),
           (''min_required_percent'', jdec (min_route_overlap_percent v_config))]),
       (''time_alignment'', JObject
          [(''score'', jdec (ROUND v_time_score 2)),
           (''time_diff_minutes'', jdec (int_dec time_diff_minutes)),
           (''max_allowed_minutes'', jdec (int_dec (max_time_difference_minutes v_config)))]),
       (''detour_penalty'', JObject
          [(''score'', jdec (ROUND v_detour_score 2)),
           (''detour_percent'', jdec (ROUND detour_percent 1)),
           (''max_allowed_percent'', jdec (max_detour_percent v_config))]),
       (''total_score'', jdec (ROUND v_total_score 2)),
       (''min_viable_score'', JNum (min_viable_score v_config))]"

text \<open>
  \<open>score_pair\<close> is the body of \<open>calculate_pool_viability_score\<close> after the front-route
  check, in the order of the source: each factor measures, tests its threshold (extending
  \<open>v_rejection_reason\<close> with a \<open>FORMAT\<close> call, which may raise) and computes its sub-score.
\<close>

definition score_pair :: "env \<Rightarrow> config \<Rightarrow> ride option \<Rightarrow> ride option \<Rightarrow> error + score_result" where
  "score_pair E v_config v_ride1 v_ride2 =
    (let dest_km = v_dest_distance_km E v_ride1 v_ride2
     in ebind (assign_reason None
                 (is_true (sql_gt dest_km (max_destination_distance_km v_config)))
                 (FORMAT E ''Destinations too far apart: %.2f km (max: %.2f km)''
                    [ArgDec dest_km, ArgDec (max_destination_distance_km v_config)]))
     (\<lambda>reason1.
     ebind (calculate_destination_proximity_score dest_km
              (max_destination_distance_km v_config) (destination_proximity_weight v_config))
     (\<lambda>v_dest_score.
     let pickup_km = v_pickup_distance_km E v_ride1 v_ride2
     in ebind (extend_reason reason1
                 (is_true (sql_gt pickup_km (max_pickup_distance_km v_config)))
                 (FORMAT E ''Pickups too far apart: %.2f km (max: %.2f km)''
                    [ArgDec pickup_km, ArgDec (max_pickup_distance_km v_config)]))
     (\<lambda>reason2.
     ebind (calculate_pickup_proximity_score pickup_km
              (max_pickup_distance_km v_config) (pickup_proximity_weight v_config))
     (\<lambda>v_pickup_score.
     ebind (v_route_overlap_percent E v_ride1 v_ride2)
     (\<lambda>overlap_percent.
     ebind (extend_reason reason2
              (is_true (sql_lt overlap_percent (min_route_overlap_percent v_config)))
              (FORMAT E ''Insufficient route overlap: %.1f%% (min: %.1f%%)''
                 [ArgDec overlap_percent, ArgDec (min_route_overlap_percent v_config)]))
     (\<lambda>reason3.
     ebind (calculate_route_overlap_score overlap_percent
              (min_route_overlap_percent v_config) (route_overlap_weight v_config))
     (\<lambda>v_overlap_score.
     ebind (v_time_diff_minutes v_ride1 v_ride2)
     (\<lambda>time_diff_minutes.
     ebind (extend_reason reason3
              (is_true (sql_gt time_diff_minutes (max_time_difference_minutes v_config)))
              (FORMAT E ''Requests too far apart in time: %s minutes (max: %s minutes)''
                 [ArgInt time_diff_minutes, ArgInt (max_time_difference_minutes v_config)]))
     (\<lambda>reason4.
     ebind (calculate_time_alignment_score time_diff_minutes
              (max_time_difference_minutes v_config) (time_alignment_weight v_config))
     (\<lambda>v_time_score.
     ebind (v_detour_percent E v_ride1 v_ride2)
     (\<lambda>detour_percent.
     ebind (extend_reason reason4
              (is_true (sql_gt detour_percent (max_detour_percent v_config)))
              (FORMAT E ''Excessive detour: %.1f%% (max: %.1f%%)''
                 [ArgDec detour_percent, ArgDec (max_detour_percent v_config)]))
     (\<lambda>v_rejection_reason.
     ebind (calculate_detour_penalty detour_percent
              (max_detour_percent v_config) (detour_penalty_weight v_config))
     (\<lambda>v_detour_score.
     let v_total_score =
           GREATEST2 (Some 0)
             (LEAST2 (Some 100)
                (n_add (n_add (n_add (n_add v_dest_score v_pickup_score) v_overlap_score)
                          v_time_score) v_detour_score))
     in Inr \<lparr>total_score = v_total_score,
             is_viable = sql_and (sql_ge v_total_score (Some (min_viable_score v_config)))
                                 (Some (v_rejection_reason = None)),
             breakdown = score_breakdown_json v_config v_dest_score dest_km
                           v_pickup_score pickup_km v_overlap_score overlap_percent
                           v_time_score time_diff_minutes v_detour_score detour_percent
                           v_total_score,
             rejection_reason = v_rejection_reason\<rparr>))))))))))))))"

definition calculate_pool_viability_score ::
  "env \<Rightarrow> db \<Rightarrow> uuid option \<Rightarrow> uuid option \<Rightarrow> string \<Rightarrow> error + score_result" where
  "calculate_pool_viability_score E d p_ride1_id p_ride2_id p_config_name =
     (case select_config d p_config_name of
        None \<Rightarrow> Inl (ConfigNotFound p_config_name)
      | Some v_config \<Rightarrow>
          (let v_ride1 = select_ride d p_ride1_id;
               v_ride2 = select_ride d p_ride2_id
           in if is_true (sql_and (front_route_only v_config)
                            (sql_or (sql_not (fld is_on_front_route v_ride1))
                                    (sql_not (fld is_on_front_route v_ride2))))
              then Inr \<lparr>total_score = Some 0, is_viable = Some False, breakdown = JObject [],
                        rejection_reason = Some ''One or both riders are not on the front route''\<rparr>
              else score_pair E v_config v_ride1 v_ride2))"

section \<open>Joining a pool\<close>

record join_result =
  can_join :: sqlbool
  cj_viability_score :: dec
  cj_score_breakdown :: jsonb
  cj_rejection_reason :: "string option"

text \<open>
  The \<open>WHERE\<close> clause of the member lookup of \<open>can_join_pool\<close>.  When no configuration is
  found \<open>v_config.front_route_only\<close> is NULL.
\<close>

definition join_candidate :: "config option \<Rightarrow> uuid \<Rightarrow> pool_member \<Rightarrow> bool" where
  "join_candidate v_config p_pool_id pm =
     (member_pool_id pm = p_pool_id \<and> left_at pm = None \<and>
      is_true (sql_or (sql_not (fld front_route_only v_config))
                      (sql_eq (is_front_route_passenger pm) (Some True))))"

text \<open>
  The lookup is \<open>LIMIT 1\<close> with no \<open>ORDER BY\<close>: the row returned is the first one the scan
  meets, here the first in storage order.
\<close>

definition v_existing_ride_id :: "db \<Rightarrow> uuid \<Rightarrow> string \<Rightarrow> uuid option" where
  "v_existing_ride_id d p_pool_id p_config_name =
     map_option member_ride_id
       (find (join_candidate (select_config d p_config_name) p_pool_id) (pool_members d))"

definition can_join_pool :: "env \<Rightarrow> db \<Rightarrow> uuid \<Rightarrow> uuid option \<Rightarrow> string \<Rightarrow> error + join_result" where
  "can_join_pool E d p_pool_id p_new_ride_id p_config_name =
     (case v_existing_ride_id d p_pool_id p_config_name of
        None \<Rightarrow>
          Inr \<lparr>can_join = Some True, cj_viability_score = Some 100,
               cj_score_breakdown = JObject [],
               cj_rejection_reason = Some ''First member - auto-approved''\<rparr>
      | Some existing \<Rightarrow>
          ebind (calculate_pool_viability_score E d (Some existing) p_new_ride_id p_config_name)
            (\<lambda>v_score_result.
               Inr \<lparr>can_join = is_viable v_score_result,
                    cj_viability_score = total_score v_score_result,
                    cj_score_breakdown = breakdown v_score_result,
                    cj_rejection_reason = rejection_reason v_score_result\<rparr>))"

section \<open>Pool state machine\<close>

text \<open>
  An \<open>UPDATE\<close> rewrites the rows its \<open>WHERE\<close> selects and then checks the table's \<open>CHECK\<close>
  constraints on them.  Of the constraints of \<open>pools\<close>, \<open>pool_capacity\<close> and
  \<open>pool_driver_required_when_started\<close> speak of columns the modelled statements write.
  The foreign keys of a row are checked after the row is written and before the triggers
  of the schema run: the constraint triggers come first in the order of trigger names.
\<close>

fun efold :: "('a \<Rightarrow> 's \<Rightarrow> error + 's) \<Rightarrow> 'a list \<Rightarrow> 's \<Rightarrow> error + 's" where
  "efold f [] s = Inr s"
| "efold f (x # xs) s = ebind (f x s) (efold f xs)"

definition pool_check_violation :: "pool \<Rightarrow> string option" where
  "pool_check_violation q =
     (if \<not> current_passengers q \<le> max_passengers q then Some ''pool_capacity''
      else if (status q = STARTED \<or> status q = COMPLETED) \<and> pool_driver_id q = None
      then Some ''pool_driver_required_when_started''
      else None)"

definition update_pools :: "db \<Rightarrow> (pool \<Rightarrow> bool) \<Rightarrow> (pool \<Rightarrow> pool) \<Rightarrow> error + db" where
  "update_pools d wh st =
     (case List.map_filter pool_check_violation (map st (filter wh (pools d))) of
        c # _ \<Rightarrow> Inl (CheckViolation c)
      | [] \<Rightarrow> Inr (d\<lparr>pools := map (\<lambda>q. if wh q then st q else q) (pools d)\<rparr>))"

definition select_pool :: "db \<Rightarrow> uuid \<Rightarrow> pool option" where
  "select_pool d pid = find (\<lambda>p. pool_id p = pid) (pools d)"

text \<open>\<open>pools p LEFT JOIN pool_scoring_config c ON c.id = p.scoring_config_id\<close>\<close>

definition pool_config :: "db \<Rightarrow> pool \<Rightarrow> config option" where
  "pool_config d p =
     (case scoring_config_id p of
        None \<Rightarrow> None
      | Some cid \<Rightarrow> find (\<lambda>c. cfg_id c = cid) (pool_scoring_config d))"

text \<open>\<open>COALESCE(c.front_route_only, TRUE)\<close> of the pool's row; NULL when there is no such pool.\<close>

definition v_front_route_only :: "db \<Rightarrow> uuid \<Rightarrow> sqlbool" where
  "v_front_route_only d pid =
     (case select_pool d pid of
        None \<Rightarrow> None
      | Some p \<Rightarrow>
          Some (case fld front_route_only (pool_config d p) of None \<Rightarrow> True | Some b \<Rightarrow> b))"

definition counted_members :: "db \<Rightarrow> uuid \<Rightarrow> pool_member list" where
  "counted_members d pid =
     (if is_true (v_front_route_only d pid)
      then filter (\<lambda>pm. member_pool_id pm = pid \<and> left_at pm = None \<and>
                        is_true (sql_eq (is_front_route_passenger pm) (Some True)))
             (pool_members d)
      else filter (\<lambda>pm. member_pool_id pm = pid \<and> left_at pm = None) (pool_members d))"

text \<open>The \<open>CASE\<close> of both recompute functions.\<close>

definition next_status :: "pool_status \<Rightarrow> int \<Rightarrow> int \<Rightarrow> bool \<Rightarrow> pool_status" where
  "next_status st v_count v_min_passengers v_has_driver =
     (if st = STARTED \<or> st = COMPLETED \<or> st = CANCELLED then st
      else if v_count \<ge> v_min_passengers \<and> v_has_driver then READY_TO_START
      else if v_count \<ge> v_min_passengers \<and> \<not> v_has_driver then WAITING_FOR_DRIVER
      else WAITING_FOR_RIDERS)"

text \<open>
  \<open>sync_pool_status\<close> for the pool \<open>COALESCE(NEW.pool_id, OLD.pool_id)\<close>.  Its \<open>UPDATE\<close> names
  \<open>status\<close>, so \<open>cascade_pool_cancel\<close> is a candidate to fire; its \<open>WHEN\<close> asks for a status
  that becomes CANCELLED, which \<open>next_status\<close> never produces from another status
  (lemma \<open>next_status_cancelled\<close>), so the trigger never fires here.
\<close>

definition sync_pool_status :: "db \<Rightarrow> uuid \<Rightarrow> error + db" where
  "sync_pool_status d v_pool_id =
     (case select_pool d v_pool_id of
        None \<Rightarrow> Inr d
      | Some p \<Rightarrow>
          (let v_min_passengers = min_passengers_to_start p;
               v_has_driver = (pool_driver_id p \<noteq> None);
               v_count = int (length (counted_members d v_pool_id))
           in update_pools d (\<lambda>q. pool_id q = v_pool_id)
                (\<lambda>q. q\<lparr>current_passengers := v_count,
                        status := next_status (status q) v_count v_min_passengers v_has_driver\<rparr>)))"

definition sync_pool_status_internal :: "db \<Rightarrow> uuid \<Rightarrow> error + db" where
  "sync_pool_status_internal d p_pool_id =
     (case select_pool d p_pool_id of
        None \<Rightarrow> Inr d
      | Some p \<Rightarrow>
          (let v_min_passengers = min_passengers_to_start p;
               v_has_driver = (pool_driver_id p \<noteq> None);
               v_count = int (length (counted_members d p_pool_id))
           in update_pools d (\<lambda>q. pool_id q = p_pool_id)
                (\<lambda>q. q\<lparr>status := next_status (status q) v_count v_min_passengers v_has_driver\<rparr>)))"

text \<open>
  An \<open>UPDATE\<close> of \<open>pool_members\<close>: the rows are rewritten, then the row trigger
  \<open>sync_pool_status_on_member_change\<close> runs once for each of them.
\<close>

definition update_pool_members ::
  "db \<Rightarrow> (pool_member \<Rightarrow> bool) \<Rightarrow> (pool_member \<Rightarrow> pool_member) \<Rightarrow> error + db" where
  "update_pool_members d wh st =
     efold (\<lambda>pm d'. sync_pool_status d' (member_pool_id (st pm)))
       (filter wh (pool_members d))
       (d\<lparr>pool_members := map (\<lambda>pm. if wh pm then st pm else pm) (pool_members d)\<rparr>)"

definition delete_pool_members :: "db \<Rightarrow> (pool_member \<Rightarrow> bool) \<Rightarrow> error + db" where
  "delete_pool_members d wh =
     efold (\<lambda>pm d'. sync_pool_status d' (member_pool_id pm))
       (filter wh (pool_members d))
       (d\<lparr>pool_members := filter (\<lambda>pm. \<not> wh pm) (pool_members d)\<rparr>)"

text \<open>
  \<open>cascade_pool_cancellation\<close> with the trigger's \<open>OLD\<close> and \<open>NEW\<close> rows of \<open>pools\<close>.  The
  \<open>UPDATE\<close> of \<open>rides\<close> fires no trigger that the model keeps (\<open>update_user_ride_count\<close>
  asks for COMPLETED).
\<close>

definition cascade_pool_cancellation :: "timestamp \<Rightarrow> db \<Rightarrow> pool \<Rightarrow> pool \<Rightarrow> error + db" where
  "cascade_pool_cancellation now d OLD NEW =
     (if status NEW = CANCELLED \<and> status OLD \<noteq> CANCELLED then
        update_pool_members
          (d\<lparr>rides :=
                map (\<lambda>r. if ride_pool_id r = Some (pool_id NEW) \<and>
                             ride_status r \<noteq> RIDE_COMPLETED \<and> ride_status r \<noteq> RIDE_CANCELLED
                          then r\<lparr>ride_status := RIDE_CANCELLED,
                                 cancelled_reason := Some ''Pool was cancelled''\<rparr>
                          else r)
                  (rides d)\<rparr>)
          (\<lambda>pm. member_pool_id pm = pool_id NEW \<and> left_at pm = None)
          (\<lambda>pm. pm\<lparr>left_at := Some now\<rparr>)
      else Inr d)"

text \<open>The trigger \<open>cascade_pool_cancel\<close>, \<open>AFTER UPDATE OF status\<close>, with its \<open>WHEN\<close>.\<close>

definition cascade_pool_cancel :: "timestamp \<Rightarrow> pool \<Rightarrow> db \<Rightarrow> error + db" where
  "cascade_pool_cancel now OLD d =
     (let NEW = OLD\<lparr>status := CANCELLED, pool_deleted_at := Some now\<rparr>
      in if status NEW = CANCELLED \<and> status OLD \<noteq> CANCELLED
         then cascade_pool_cancellation now d OLD NEW
         else Inr d)"

text \<open>
  \<open>UPDATE pools SET status = 'CANCELLED', deleted_at = NOW() WHERE id = pid\<close>, the one
  statement of the schema that cancels a pool, with the trigger it fires.
\<close>

definition cancel_pool :: "timestamp \<Rightarrow> db \<Rightarrow> uuid \<Rightarrow> error + db" where
  "cancel_pool now d pid =
     ebind (update_pools d (\<lambda>q. pool_id q = pid)
              (\<lambda>q. q\<lparr>status := CANCELLED, pool_deleted_at := Some now\<rparr>))
       (efold (cascade_pool_cancel now) (filter (\<lambda>q. pool_id q = pid) (pools d)))"

section \<open>Pool scoring trigger\<close>

text \<open>\<open>ORDER BY ... ASC\<close> puts NULL last.\<close>

definition nulls_last :: "rat option \<Rightarrow> bool \<times> rat" where
  "nulls_last a = (case a of None \<Rightarrow> (True, 0) | Some x \<Rightarrow> (False, x))"

definition row_at :: "nat \<Rightarrow> 'a list \<Rightarrow> 'a option" where
  "row_at n xs = (if n < length xs then Some (xs ! n) else None)"

text \<open>
  A row of the \<open>SELECT\<close> that feeds \<open>INSERT INTO notifications\<close>, for the membership row
  \<open>pm\<close>; the \<open>FORMAT\<close> call of its message is evaluated for every row.
\<close>

definition pool_cancelled_notification ::
  "env \<Rightarrow> uuid \<Rightarrow> score_result \<Rightarrow> pool_member \<Rightarrow> error + notification" where
  "pool_cancelled_notification E pid v_score_result pm =
     ebind (FORMAT E ''Pool cancelled: %s (Score: %.1f/100)''
              [ArgText (rejection_reason v_score_result), ArgDec (total_score v_score_result)])
       (\<lambda>msg.
          Inr \<lparr>note_user_id = member_user_id pm,
               title = ''Pool Formation Failed'',
               message = msg,
               note_type = ''POOL_CANCELLED'',
               metadata = JObject [(''pool_id'', JUuid pid),
                                   (''score'', jdec (total_score v_score_result))]\<rparr>)"

text \<open>The rows of a query are computed one after the other; the first error ends it.\<close>

fun emap :: "('a \<Rightarrow> error + 'b) \<Rightarrow> 'a list \<Rightarrow> error + 'b list" where
  "emap f [] = Inr []"
| "emap f (x # xs) = ebind (f x) (\<lambda>y. ebind (emap f xs) (\<lambda>ys. Inr (y # ys)))"

text \<open>
  \<open>update_pool_viability_score\<close>, the trigger function of \<open>validate_pool_score_on_member_join\<close>,
  for the inserted row \<open>NEW\<close>.  The score columns are \<open>DECIMAL(5,2)\<close>: storing rounds to two
  places.
\<close>

definition update_pool_viability_score :: "env \<Rightarrow> timestamp \<Rightarrow> db \<Rightarrow> pool_member \<Rightarrow> error + db" where
  "update_pool_viability_score E now d NEW =
     (let members = counted_members d (member_pool_id NEW);
          v_member_count = length members
      in if v_member_count = 2 then
           (let ordered = sort_key (\<lambda>pm. nulls_last (joined_at pm)) members;
                v_first_ride_id = map_option member_ride_id (row_at 0 ordered);
                v_second_ride_id = map_option member_ride_id (row_at 1 ordered)
            in ebind (calculate_pool_viability_score E d v_first_ride_id v_second_ride_id ''default'')
            (\<lambda>v_score_result.
            ebind (update_pools d (\<lambda>q. pool_id q = member_pool_id NEW)
                     (\<lambda>q. q\<lparr>viability_score := ROUND (total_score v_score_result) 2,
                             score_breakdown := Some (breakdown v_score_result)\<rparr>))
            (\<lambda>d1.
            ebind (update_pool_members d1 (\<lambda>pm. member_id pm = member_id NEW)
                     (\<lambda>pm. pm\<lparr>join_score := ROUND (total_score v_score_result) 2,
                               join_score_breakdown := Some (breakdown v_score_result)\<rparr>))
            (\<lambda>d2.
            if is_true (sql_not (is_viable v_score_result)) then
              ebind (cancel_pool now d2 (member_pool_id NEW))
                (\<lambda>d3.
                ebind (emap (pool_cancelled_notification E (member_pool_id NEW) v_score_result)
                         (filter (\<lambda>pm. member_pool_id pm = member_pool_id NEW)
                            (pool_members d3)))
                (\<lambda>rows. Inr (d3\<lparr>notifications := notifications d3 @ rows\<rparr>)))
            else Inr d2))))
         else Inr d)"

section \<open>Statements that change membership or driver\<close>

text \<open>
  \<open>INSERT INTO pool_members\<close>: the primary key and the two \<open>UNIQUE\<close> constraints, the three
  foreign keys, then the two \<open>AFTER INSERT\<close> row triggers in the order of their names,
  \<open>sync_pool_status_on_member_change\<close> before \<open>validate_pool_score_on_member_join\<close>.
\<close>

definition insert_pool_member :: "env \<Rightarrow> timestamp \<Rightarrow> db \<Rightarrow> pool_member \<Rightarrow> error + db" where
  "insert_pool_member E now d NEW =
     (if list_ex (\<lambda>pm. member_id pm = member_id NEW) (pool_members d)
      then Inl (UniqueViolation ''pool_members_pkey'')
      else if list_ex (\<lambda>pm. member_pool_id pm = member_pool_id NEW \<and>
                            member_user_id pm = member_user_id NEW) (pool_members d)
      then Inl (UniqueViolation ''pool_members_pool_id_user_id_key'')
      else if list_ex (\<lambda>pm. member_ride_id pm = member_ride_id NEW) (pool_members d)
      then Inl (UniqueViolation ''pool_members_ride_id_key'')
      else if \<not> list_ex (\<lambda>q. pool_id q = member_pool_id NEW) (pools d)
      then Inl (ForeignKeyViolation ''pool_members_pool_id_fkey'')
      else if \<not> list_ex (\<lambda>u. user_id u = member_user_id NEW) (users d)
      then Inl (ForeignKeyViolation ''pool_members_user_id_fkey'')
      else if \<not> list_ex (\<lambda>r. ride_id r = member_ride_id NEW) (rides d)
      then Inl (ForeignKeyViolation ''pool_members_ride_id_fkey'')
      else ebind (sync_pool_status (d\<lparr>pool_members := pool_members d @ [NEW]\<rparr>)
                    (member_pool_id NEW))
             (\<lambda>d1. update_pool_viability_score E now d1 NEW))"

text \<open>
  \<open>UPDATE pools SET driver_id = .., vehicle_id = .. WHERE id = pid\<close>.  For each row the
  foreign keys \<open>driver_id\<close> and \<open>vehicle_id\<close> are checked when the column changed to a value
  that is not NULL, then the trigger \<open>sync_pool_status_on_driver_assignment\<close> runs when
  the driver changed.
\<close>

definition set_pool_driver :: "db \<Rightarrow> uuid \<Rightarrow> uuid option \<Rightarrow> uuid option \<Rightarrow> error + db" where
  "set_pool_driver d pid new_driver new_vehicle =
     ebind (update_pools d (\<lambda>q. pool_id q = pid)
              (\<lambda>q. q\<lparr>pool_driver_id := new_driver, pool_vehicle_id := new_vehicle\<rparr>))
       (efold (\<lambda>OLD d'.
                 if pool_driver_id OLD \<noteq> new_driver \<and> new_driver \<noteq> None \<and>
                    \<not> list_ex (\<lambda>u. Some (user_id u) = new_driver) (users d')
                 then Inl (ForeignKeyViolation ''pools_driver_id_fkey'')
                 else if pool_vehicle_id OLD \<noteq> new_vehicle \<and> new_vehicle \<noteq> None \<and>
                    \<not> list_ex (\<lambda>v. Some (vehicle_id v) = new_vehicle) (vehicles d')
                 then Inl (ForeignKeyViolation ''pools_vehicle_id_fkey'')
                 else if pool_driver_id OLD \<noteq> new_driver
                 then sync_pool_status_internal d' (pool_id OLD) else Inr d')
          (filter (\<lambda>q. pool_id q = pid) (pools d)))"

text \<open>
  The events the state machine reacts to.  A statement that raises is rolled back and
  leaves the database as it was.  An update of a membership may rewrite any column; the
  model does not refuse one that the key constraints of \<open>pool_members\<close> would refuse.
\<close>

datatype event =
    MemberInsert pool_member
  | MemberUpdate uuid "pool_member \<Rightarrow> pool_member"
  | MemberDelete uuid
  | DriverChange uuid "uuid option" "uuid option"
  | Recompute uuid

fun perform :: "env \<Rightarrow> timestamp \<Rightarrow> db \<Rightarrow> event \<Rightarrow> error + db" where
  "perform E now d (MemberInsert NEW) = insert_pool_member E now d NEW"
| "perform E now d (MemberUpdate mid st) = update_pool_members d (\<lambda>pm. member_id pm = mid) st"
| "perform E now d (MemberDelete mid) = delete_pool_members d (\<lambda>pm. member_id pm = mid)"
| "perform E now d (DriverChange pid drv veh) = set_pool_driver d pid drv veh"
| "perform E now d (Recompute pid) = sync_pool_status_internal d pid"

fun run :: "env \<Rightarrow> db \<Rightarrow> (timestamp \<times> event) list \<Rightarrow> db" where
  "run E d [] = d"
| "run E d ((now, ev) # evs) =
     run E (case perform E now d ev of Inl _ \<Rightarrow> d | Inr d' \<Rightarrow> d') evs"

section \<open>Vehicle locations\<close>

text \<open>
  \<open>update_driver_location\<close>.  \<open>new_id\<close> is the \<open>uuid_generate_v4()\<close> default of the inserted
  row and \<open>now\<close> its \<open>recorded_at\<close> default.  The \<open>INSERT\<close> goes through these steps, and
  the first that fails raises:
  \<^item> the values are converted to the types of their columns: \<open>current_lat\<close> is
    \<open>DECIMAL(10, 8)\<close>, \<open>current_lng\<close> is \<open>DECIMAL(11, 8)\<close>, \<open>heading\<close> and \<open>speed_kmh\<close> are
    \<open>DECIMAL(5, 2)\<close>;
  \<^item> the \<open>BEFORE INSERT\<close> trigger \<open>update_vehicle_location_geography\<close> builds
    \<open>current_location\<close> from the stored \<open>current_lng\<close> and \<open>current_lat\<close>;
  \<^item> the \<open>NOT NULL\<close> columns, in the order of the columns, then the \<open>CHECK\<close> constraints
    \<open>valid_heading\<close> and \<open>valid_speed\<close> on the stored values;
  \<^item> the primary key;
  \<^item> the foreign keys \<open>vehicle_id\<close>, \<open>driver_id\<close> and \<open>fk_vehicle_locations_pool_id\<close>.
\<close>

definition update_driver_location ::
  "env \<Rightarrow> timestamp \<Rightarrow> uuid \<Rightarrow> db \<Rightarrow> uuid option \<Rightarrow> uuid option \<Rightarrow> dec \<Rightarrow> dec \<Rightarrow> dec \<Rightarrow> dec \<Rightarrow> sqlint
     \<Rightarrow> uuid option \<Rightarrow> error + uuid \<times> db" where
  "update_driver_location E now new_id d p_driver_id p_vehicle_id p_current_lat p_current_lng
       p_heading p_speed_kmh p_accuracy_meters p_pool_id =
     (let v_is_driver = fld is_driver (find (\<lambda>u. Some (user_id u) = p_driver_id) (users d))
      in if is_true (sql_not v_is_driver) then Inl (NotADriver p_driver_id)
         else
           (let deactivated =
                  map (\<lambda>vl. if Some (loc_vehicle_id vl) = p_vehicle_id \<and>
                                is_true (sql_eq (loc_is_active vl) (Some True))
                             then vl\<lparr>loc_is_active := Some False\<rparr> else vl)
                    (vehicle_locations d)
            in ebind (store_decimal 10 8 p_current_lat) (\<lambda>lat.
               ebind (store_decimal 11 8 p_current_lng) (\<lambda>lng.
               ebind (store_decimal 5 2 p_heading) (\<lambda>hd.
               ebind (store_decimal 5 2 p_speed_kmh) (\<lambda>sp.
               case p_vehicle_id of
                 None \<Rightarrow> Inl (NotNullViolation ''vehicle_id'')
               | Some vid \<Rightarrow>
               case p_driver_id of
                 None \<Rightarrow> Inl (NotNullViolation ''driver_id'')
               | Some did \<Rightarrow>
               case lat of
                 None \<Rightarrow> Inl (NotNullViolation ''current_lat'')
               | Some v_lat \<Rightarrow>
               case lng of
                 None \<Rightarrow> Inl (NotNullViolation ''current_lng'')
               | Some v_lng \<Rightarrow>
                 (let NEW = \<lparr>loc_id = new_id, loc_vehicle_id = vid, loc_driver_id = did,
                             loc_pool_id = p_pool_id, current_lat = v_lat, current_lng = v_lng,
                             current_location = Some (ST_MakePoint E v_lng v_lat),
                             heading = hd, speed_kmh = sp,
                             accuracy_meters = p_accuracy_meters,
                             loc_is_active = Some True, is_available = Some (p_pool_id = None),
                             recorded_at = Some now\<rparr>
                  in if (case hd of None \<Rightarrow> False | Some h \<Rightarrow> \<not> (0 \<le> h \<and> h < 360))
                     then Inl (CheckViolation ''valid_heading'')
                     else if (case sp of None \<Rightarrow> False | Some v \<Rightarrow> \<not> 0 \<le> v)
                     then Inl (CheckViolation ''valid_speed'')
                     else if list_ex (\<lambda>vl. loc_id vl = new_id) (vehicle_locations d)
                     then Inl (UniqueViolation ''vehicle_locations_pkey'')
                     else if \<not> list_ex (\<lambda>v. vehicle_id v = vid) (vehicles d)
                     then Inl (ForeignKeyViolation ''vehicle_locations_vehicle_id_fkey'')
                     else if \<not> list_ex (\<lambda>u. user_id u = did) (users d)
                     then Inl (ForeignKeyViolation ''vehicle_locations_driver_id_fkey'')
                     else if (case p_pool_id of
                                None \<Rightarrow> False
                              | Some pid \<Rightarrow> \<not> list_ex (\<lambda>q. pool_id q = pid) (pools d))
                     then Inl (ForeignKeyViolation ''fk_vehicle_locations_pool_id'')
                     else Inr (new_id, d\<lparr>vehicle_locations := deactivated @ [NEW]\<rparr>))))))))"

section \<open>Driver search\<close>

record driver_row =
  dr_driver_id :: uuid
  dr_vehicle_id :: uuid
  dr_vehicle_type :: vehicle_type
  dr_vehicle_number :: string
  distance_km :: dec
  dr_current_location :: "geography option"
  dr_heading :: dec
  driver_rating :: dec
  driver_total_rides :: sqlint
  location_updated_at :: "timestamp option"








section \<open>The viability rule in the words of the specification\<close>

text \<open>
  The specification names five hard thresholds.  These definitions say which of them are
  exceeded, over the five quantities the engine measures, to be compared with what
  \<open>score_pair\<close> computes.
\<close>

datatype threshold = Destination | Pickup | Overlap | Time | Detour

record measures =
  m_dest_km :: dec
  m_pickup_km :: dec
  m_overlap_percent :: dec
  m_time_diff_minutes :: sqlint
  m_detour_percent :: dec

definition measurements :: "env \<Rightarrow> ride option \<Rightarrow> ride option \<Rightarrow> error + measures" where
  "measurements E v_ride1 v_ride2 =
     ebind (v_route_overlap_percent E v_ride1 v_ride2) (\<lambda>ov.
     ebind (v_time_diff_minutes v_ride1 v_ride2) (\<lambda>td.
     ebind (v_detour_percent E v_ride1 v_ride2) (\<lambda>dt.
       Inr \<lparr>m_dest_km = v_dest_distance_km E v_ride1 v_ride2,
            m_pickup_km = v_pickup_distance_km E v_ride1 v_ride2,
            m_overlap_percent = ov, m_time_diff_minutes = td, m_detour_percent = dt\<rparr>)))"

fun exceeded :: "config \<Rightarrow> measures \<Rightarrow> threshold \<Rightarrow> bool" where
  "exceeded c m Destination = is_true (sql_gt (m_dest_km m) (max_destination_distance_km c))"
| "exceeded c m Pickup = is_true (sql_gt (m_pickup_km m) (max_pickup_distance_km c))"
| "exceeded c m Overlap = is_true (sql_lt (m_overlap_percent m) (min_route_overlap_percent c))"
| "exceeded c m Time = is_true (sql_gt (m_time_diff_minutes m) (max_time_difference_minutes c))"
| "exceeded c m Detour = is_true (sql_gt (m_detour_percent m) (max_detour_percent c))"

definition exceeded_thresholds :: "config \<Rightarrow> measures \<Rightarrow> threshold list" where
  "exceeded_thresholds c m = filter (exceeded c m) [Destination, Pickup, Overlap, Time, Detour]"

text \<open>The message of the time threshold, the one message built with \<open>%s\<close> only.\<close>

definition time_message :: "sqlint \<Rightarrow> sqlint \<Rightarrow> string" where
  "time_message minutes max_minutes =
     ''Requests too far apart in time: '' @ (case minutes of None \<Rightarrow> [] | Some n \<Rightarrow> int_out n) @
     '' minutes (max: '' @ (case max_minutes of None \<Rightarrow> [] | Some n \<Rightarrow> int_out n) @
     '' minutes)''"

text \<open>The condition of the front-route check of \<open>calculate_pool_viability_score\<close>.\<close>

definition front_route_gate :: "config \<Rightarrow> ride option \<Rightarrow> ride option \<Rightarrow> bool" where
  "front_route_gate c v_ride1 v_ride2 =
     is_true (sql_and (front_route_only c)
                (sql_or (sql_not (fld is_on_front_route v_ride1))
                        (sql_not (fld is_on_front_route v_ride2))))"

section \<open>Stickiness of the terminal statuses, in the words of the specification\<close>

definition terminal :: "pool_status \<Rightarrow> bool" where
  "terminal st = (st = STARTED \<or> st = COMPLETED \<or> st = CANCELLED)"

text \<open>Between two states of the same pool row: a terminal status is unchanged.\<close>

definition keeps_terminal :: "pool \<Rightarrow> pool \<Rightarrow> bool" where
  "keeps_terminal p p' = (pool_id p' = pool_id p \<and> (terminal (status p) \<longrightarrow> status p' = status p))"

text \<open>A terminal status is unchanged, or the pool has been cancelled.\<close>

definition sticky :: "pool \<Rightarrow> pool \<Rightarrow> bool" where
  "sticky p p' =
     (pool_id p' = pool_id p \<and>
      (terminal (status p) \<longrightarrow> status p' = status p \<or> status p' = CANCELLED))"

text \<open>The same, row by row, between two states of the database.\<close>

definition terminal_kept :: "db \<Rightarrow> db \<Rightarrow> bool" where
  "terminal_kept d d' = list_all2 keeps_terminal (pools d) (pools d')"

definition terminal_sticky :: "db \<Rightarrow> db \<Rightarrow> bool" where
  "terminal_sticky d d' = list_all2 sticky (pools d) (pools d')"

text \<open>
  What the schema guarantees of \<open>pools\<close>: the primary key, \<open>max_passengers > 0\<close>,
  \<open>pool_capacity\<close> and \<open>pool_driver_required_when_started\<close>.
\<close>

definition pools_valid :: "db \<Rightarrow> bool" where
  "pools_valid d =
     (distinct (map pool_id (pools d)) \<and>
      list_all (\<lambda>q. 0 < max_passengers q \<and> pool_check_violation q = None) (pools d))"

text \<open>What the cascade does to a ride and to a membership of the cancelled pool.\<close>

definition cancelled_ride :: "uuid \<Rightarrow> ride \<Rightarrow> ride" where
  "cancelled_ride pid r =
     (if ride_pool_id r = Some pid \<and> ride_status r \<noteq> RIDE_COMPLETED \<and>
         ride_status r \<noteq> RIDE_CANCELLED
      then r\<lparr>ride_status := RIDE_CANCELLED, cancelled_reason := Some ''Pool was cancelled''\<rparr>
      else r)"

definition left_member :: "timestamp \<Rightarrow> uuid \<Rightarrow> pool_member \<Rightarrow> pool_member" where
  "left_member now pid pm =
     (if member_pool_id pm = pid \<and> left_at pm = None then pm\<lparr>left_at := Some now\<rparr> else pm)"

text \<open>Rewriting the vehicle-class and gender preferences of a ride, all else unchanged.\<close>

definition set_preferences ::
  "(ride \<Rightarrow> vehicle_type) \<Rightarrow> (ride \<Rightarrow> gender_restriction option) \<Rightarrow> ride \<Rightarrow> ride" where
  "set_preferences vt g r =
     r\<lparr>preferred_vehicle_type := vt r, preferred_gender_restriction := g r\<rparr>"

section \<open>Concrete data for the worked examples\<close>

text \<open>
  An environment for evaluation: points on a kilometre grid with the taxicab distance in
  metres; no worked example prints a \<open>numeric\<close> value.
\<close>

definition grid_env :: env where
  "grid_env =
     \<lparr>ST_Distance = (\<lambda>a b. 1000 * (\<bar>fst a - fst b\<bar> + \<bar>snd a - snd b\<bar>)),
      ST_MakePoint = (\<lambda>lng lat. (lng, lat)),
      numeric_out = (\<lambda>x. [])\<rparr>"

text \<open>The row the schema inserts into \<open>pool_scoring_config\<close>.\<close>

definition default_config :: config where
  "default_config =
     \<lparr>cfg_id = 1, config_name = ''default'', min_viable_score = 60,
      destination_proximity_weight = Some 30, pickup_proximity_weight = Some 25,
      route_overlap_weight = Some 20, time_alignment_weight = Some 15,
      detour_penalty_weight = Some 10, max_destination_distance_km = Some 2,
      max_pickup_distance_km = Some 5, min_route_overlap_percent = Some 40,
      max_detour_percent = Some 30, max_time_difference_minutes = Some 10,
      front_route_only = Some True, max_off_route_distance_km = Some (1 / 2),
      cfg_is_active = Some True\<rparr>"

definition mk_ride ::
  "uuid \<Rightarrow> uuid option \<Rightarrow> geography \<Rightarrow> geography \<Rightarrow> timestamp \<Rightarrow> bool \<Rightarrow> ride" where
  "mk_ride i p pickup dropoff t front =
     \<lparr>ride_id = i, ride_user_id = i, ride_pool_id = p,
      pickup_location = Some pickup, dropoff_location = Some dropoff,
      preferred_vehicle_type = CAR, preferred_gender_restriction = Some ANY,
      ride_status = IN_POOL, is_on_front_route = Some front,
      ride_created_at = Some t, cancelled_reason = None\<rparr>"

definition mk_member :: "uuid \<Rightarrow> uuid \<Rightarrow> timestamp \<Rightarrow> timestamp option \<Rightarrow> pool_member" where
  "mk_member i p t l =
     \<lparr>member_id = i, member_pool_id = p, member_user_id = i, member_ride_id = i,
      joined_at = Some t, left_at = l, join_score = None, join_score_breakdown = None,
      is_front_route_passenger = Some True\<rparr>"

definition mk_pool :: "uuid \<Rightarrow> pool_status \<Rightarrow> uuid option \<Rightarrow> int \<Rightarrow> int \<Rightarrow> pool" where
  "mk_pool i st drv cur mx =
     \<lparr>pool_id = i, pool_driver_id = drv, pool_vehicle_id = drv, status = st,
      pool_vehicle_type = CAR, pool_gender_restriction = Some ANY,
      current_passengers = cur, max_passengers = mx, min_passengers_to_start = 2,
      viability_score = None, score_breakdown = None, scoring_config_id = Some 1,
      pool_deleted_at = None\<rparr>"

definition empty_db :: db where
  "empty_db =
     \<lparr>pool_scoring_config = [default_config], pools = [], rides = [], pool_members = [],
      notifications = [], vehicle_locations = [], vehicles = [], users = []\<rparr>"

text \<open>
  Rides 1 and 2 ask for the same trip at the same time; ride 3 is the same trip eleven
  minutes later; ride 4 is the trip of ride 1 by a rider off the front route; ride 5 ends
  three kilometres from ride 1; rides 6 and 7 start and end at one point.
\<close>

definition rides_db :: db where
  "rides_db = empty_db
     \<lparr>rides :=
        [mk_ride 1 None (0, 0) (3, 4) 0 True,
         mk_ride 2 None (0, 0) (3, 4) 0 True,
         mk_ride 3 None (0, 0) (3, 4) 660 True,
         mk_ride 4 None (0, 0) (3, 4) 0 False,
         mk_ride 5 None (0, 0) (3, 7) 0 True,
         mk_ride 6 None (0, 0) (0, 0) 0 True,
         mk_ride 7 None (0, 0) (0, 0) 0 True]\<rparr>"

text \<open>The same rides under a configuration whose minimum viable score is 0.\<close>

definition lenient_config :: config where
  "lenient_config = default_config\<lparr>min_viable_score := 0\<rparr>"

definition lenient_db :: db where
  "lenient_db = rides_db\<lparr>pool_scoring_config := [lenient_config]\<rparr>"

text \<open>
  Pool 1 has started, has a driver and is full (2 of 2 seats, rides 1 and 2); ride 8 asks
  for the trip of ride 1 in a CNG, while the pool is for cars.
\<close>

definition full_pool_db :: db where
  "full_pool_db = rides_db
     \<lparr>pools := [mk_pool 1 STARTED (Some 9) 2 2],
      pool_members := [mk_member 1 1 10 None, mk_member 2 1 20 None],
      rides := rides (rides_db) @
               [(mk_ride 8 None (0, 0) (3, 4) 0 True)\<lparr>preferred_vehicle_type := CNG\<rparr>]\<rparr>"


text \<open>
  Driver 9 with vehicle 5, whose last sample (id 1) is active and available at the origin.
\<close>

definition sample_1 :: vehicle_location where
  "sample_1 =
     \<lparr>loc_id = 1, loc_vehicle_id = 5, loc_driver_id = 9, loc_pool_id = None,
      current_lat = 0, current_lng = 0, current_location = Some (0, 0), heading = None, speed_kmh = None,
      accuracy_meters = None, loc_is_active = Some True, is_available = Some True,
      recorded_at = Some 0\<rparr>"

definition mk_user :: "uuid \<Rightarrow> user" where
  "mk_user i =
     \<lparr>user_id = i, is_driver = Some True, average_rating = None, total_rides = Some 0,
      user_deleted_at = None\<rparr>"

definition mk_vehicle :: "uuid \<Rightarrow> uuid \<Rightarrow> vehicle" where
  "mk_vehicle i drv =
     \<lparr>vehicle_id = i, vehicle_driver_id = drv, veh_vehicle_type = CAR,
      vehicle_number = ''DHAKA'', veh_is_active = Some True, veh_deleted_at = None\<rparr>"

definition loc_db :: db where
  "loc_db = empty_db
     \<lparr>users := [mk_user 9], vehicles := [mk_vehicle 5 9], vehicle_locations := [sample_1],
      pools := [mk_pool 1 WAITING_FOR_DRIVER None 2 4]\<rparr>"

text \<open>
  Driver 1 has vehicles 11 and 13, driver 2 has vehicle 12; each vehicle has one sample,
  active and available, at 5 km, 2 km and 1 km from the origin.
\<close>

definition mk_sample :: "uuid \<Rightarrow> uuid \<Rightarrow> uuid \<Rightarrow> geography \<Rightarrow> timestamp \<Rightarrow> vehicle_location" where
  "mk_sample i veh drv pt t =
     \<lparr>loc_id = i, loc_vehicle_id = veh, loc_driver_id = drv, loc_pool_id = None,
      current_lat = snd pt, current_lng = fst pt, current_location = Some pt, heading = None, speed_kmh = None,
      accuracy_meters = None, loc_is_active = Some True, is_available = Some True,
      recorded_at = Some t\<rparr>"


text \<open>
  Pool 1 is waiting for riders.  The member of ride 1 left at 15 and cancelled the ride;
  the member of ride 2 is active; ride 3, the same trip eleven minutes later, is about to
  join.  Users 8 and 9 are drivers, with vehicles 8 and 9.
\<close>

definition forming_db :: db where
  "forming_db = empty_db
     \<lparr>users := [mk_user 1, mk_user 2, mk_user 3, mk_user 8, mk_user 9],
      vehicles := [mk_vehicle 8 8, mk_vehicle 9 9],
      pools := [mk_pool 1 WAITING_FOR_RIDERS None 1 4],
      rides :=
        [(mk_ride 1 (Some 1) (0, 0) (3, 4) 0 True)
           \<lparr>ride_status := RIDE_CANCELLED, cancelled_reason := Some ''Changed plans''\<rparr>,
         mk_ride 2 (Some 1) (0, 0) (3, 4) 0 True,
         mk_ride 3 (Some 1) (0, 0) (3, 4) 660 True],
      pool_members := [mk_member 1 1 10 (Some 15), mk_member 2 1 20 None]\<rparr>"

text \<open>Pool 1 has started with driver 9 and one active member left, that of ride 2.\<close>

definition started_db :: db where
  "started_db = forming_db\<lparr>pools := [mk_pool 1 STARTED (Some 9) 1 4]\<rparr>"

text \<open>\<open>forming_db\<close> after pool 1 was cancelled at 700.\<close>

definition cancelled_db :: db where
  "cancelled_db = forming_db
     \<lparr>pools := [(mk_pool 1 CANCELLED None 0 4)\<lparr>pool_deleted_at := Some 700\<rparr>],
      rides := map (cancelled_ride 1) (rides forming_db),
      pool_members := map (left_member 700 1) (pool_members forming_db)\<rparr>"

section \<open>Helper lemmas: SQL values and errors\<close>

lemma ebind_Inr_iff: "ebind m f = Inr r \<longleftrightarrow> (\<exists>v. m = Inr v \<and> f v = Inr r)"
  by (cases m) (simp_all add: ebind_def)

lemma clamp_total:
  "\<exists>t. GREATEST2 (Some 0) (LEAST2 (Some 100) s) = Some t \<and> 0 \<le> t \<and> t \<le> 100"
  by (cases s) (simp_all add: GREATEST2_def LEAST2_def)

lemma sql_and_Some: "sql_and (Some a) (Some b) = Some (a \<and> b)"
  by (cases a; cases b) (simp_all add: sql_and_def)

lemma round_half_away_zero: "\<bar>x\<bar> < 1 / 2 \<Longrightarrow> round_half_away x = 0"
  unfolding round_half_away_def by (auto simp: floor_eq_iff)

lemma sql_ge_Some: "sql_ge (Some a) (Some b) = Some (b \<le> a)"
  by (simp add: sql_ge_def)

section \<open>Helper lemmas: the scoring engine\<close>

lemma format_time_message:
  "FORMAT E ''Requests too far apart in time: %s minutes (max: %s minutes)'' [ArgInt a, ArgInt b] =
   Inr (time_message a b)"
  by (simp add: FORMAT.simps time_message_def ebind_def)

lemma format_destination_raises:
  "FORMAT E ''Destinations too far apart: %.2f km (max: %.2f km)'' args =
   Inl (InvalidParameterValue ''unrecognized format() type specifier'')"
  by (simp add: FORMAT.simps ebind_def)

lemma format_pickup_raises:
  "FORMAT E ''Pickups too far apart: %.2f km (max: %.2f km)'' args =
   Inl (InvalidParameterValue ''unrecognized format() type specifier'')"
  by (simp add: FORMAT.simps ebind_def)

lemma format_overlap_raises:
  "FORMAT E ''Insufficient route overlap: %.1f%% (min: %.1f%%)'' args =
   Inl (InvalidParameterValue ''unrecognized format() type specifier'')"
  by (simp add: FORMAT.simps ebind_def)

lemma format_detour_raises:
  "FORMAT E ''Excessive detour: %.1f%% (max: %.1f%%)'' args =
   Inl (InvalidParameterValue ''unrecognized format() type specifier'')"
  by (simp add: FORMAT.simps ebind_def)

lemma format_notification_raises:
  "FORMAT E ''Pool cancelled: %s (Score: %.1f/100)'' [a, b] =
   Inl (InvalidParameterValue ''unrecognized format() type specifier'')"
  by (simp add: FORMAT.simps ebind_def)

lemmas format_raises =
  format_destination_raises format_pickup_raises format_overlap_raises format_detour_raises

lemma assign_reason_Inl: "assign_reason v b (Inl e) = Inr q \<longleftrightarrow> \<not> b \<and> q = v"
  by (auto simp: assign_reason_def ebind_def)

lemma extend_reason_Inl: "extend_reason v b (Inl e) = Inr q \<longleftrightarrow> \<not> b \<and> q = v"
  by (auto simp: extend_reason_def ebind_def)

lemma extend_reason_None:
  "extend_reason None b (Inr s) = Inr q \<longleftrightarrow> q = (if b then Some s else None)"
  by (auto simp: extend_reason_def ebind_def)

lemma score_pair_parts:
  "score_pair E c r1 r2 = Inr r \<Longrightarrow>
   \<exists>ov td dt s.
      v_route_overlap_percent E r1 r2 = Inr ov \<and> v_time_diff_minutes r1 r2 = Inr td \<and>
      v_detour_percent E r1 r2 = Inr dt \<and>
      total_score r = GREATEST2 (Some 0) (LEAST2 (Some 100) s) \<and>
      is_viable r = sql_and (sql_ge (total_score r) (Some (min_viable_score c)))
                            (Some (rejection_reason r = None)) \<and>
      \<not> is_true (sql_gt (v_dest_distance_km E r1 r2) (max_destination_distance_km c)) \<and>
      \<not> is_true (sql_gt (v_pickup_distance_km E r1 r2) (max_pickup_distance_km c)) \<and>
      \<not> is_true (sql_lt ov (min_route_overlap_percent c)) \<and>
      \<not> is_true (sql_gt dt (max_detour_percent c)) \<and>
      (is_true (sql_gt td (max_time_difference_minutes c)) \<longrightarrow>
         rejection_reason r = Some (time_message td (max_time_difference_minutes c))) \<and>
      (\<not> is_true (sql_gt td (max_time_difference_minutes c)) \<longrightarrow> rejection_reason r = None)"
  by (auto simp: score_pair_def Let_def ebind_Inr_iff format_raises
        format_time_message assign_reason_Inl extend_reason_Inl extend_reason_None)

lemma score_pair_fields:
  assumes "score_pair E c r1 r2 = Inr r"
  shows "\<exists>m s. measurements E r1 r2 = Inr m \<and>
           total_score r = GREATEST2 (Some 0) (LEAST2 (Some 100) s) \<and>
           is_viable r = sql_and (sql_ge (total_score r) (Some (min_viable_score c)))
                                 (Some (rejection_reason r = None)) \<and>
           \<not> exceeded c m Destination \<and> \<not> exceeded c m Pickup \<and>
           \<not> exceeded c m Overlap \<and> \<not> exceeded c m Detour \<and>
           rejection_reason r =
             (if exceeded c m Time
              then Some (time_message (m_time_diff_minutes m) (max_time_difference_minutes c))
              else None)"
proof -
  from score_pair_parts[OF assms] obtain ov td dt s where
    p: "v_route_overlap_percent E r1 r2 = Inr ov" "v_time_diff_minutes r1 r2 = Inr td"
       "v_detour_percent E r1 r2 = Inr dt"
       "total_score r = GREATEST2 (Some 0) (LEAST2 (Some 100) s)"
       "is_viable r = sql_and (sql_ge (total_score r) (Some (min_viable_score c)))
                            (Some (rejection_reason r = None))"
       "\<not> is_true (sql_gt (v_dest_distance_km E r1 r2) (max_destination_distance_km c))"
       "\<not> is_true (sql_gt (v_pickup_distance_km E r1 r2) (max_pickup_distance_km c))"
       "\<not> is_true (sql_lt ov (min_route_overlap_percent c))"
       "\<not> is_true (sql_gt dt (max_detour_percent c))"
       "is_true (sql_gt td (max_time_difference_minutes c)) \<longrightarrow>
         rejection_reason r = Some (time_message td (max_time_difference_minutes c))"
       "\<not> is_true (sql_gt td (max_time_difference_minutes c)) \<longrightarrow> rejection_reason r = None"
    by blast
  let ?m = "\<lparr>m_dest_km = v_dest_distance_km E r1 r2,
             m_pickup_km = v_pickup_distance_km E r1 r2,
             m_overlap_percent = ov, m_time_diff_minutes = td, m_detour_percent = dt\<rparr>"
  have m: "measurements E r1 r2 = Inr ?m"
    by (simp add: measurements_def ebind_def p(1,2,3))
  have rej: "rejection_reason r =
             (if exceeded c ?m Time
              then Some (time_message (m_time_diff_minutes ?m) (max_time_difference_minutes c))
              else None)"
    using p(10,11) by simp
  show ?thesis
    by (intro exI[of _ ?m] exI[of _ s] conjI, rule m, rule p(4), rule p(5))
       (simp_all add: p(6,7,8,9) rej[simplified])
qed

lemma score_pair_Inr:
  assumes "score_pair E c r1 r2 = Inr r"
  shows "\<exists>m t. measurements E r1 r2 = Inr m \<and> total_score r = Some t \<and> 0 \<le> t \<and> t \<le> 100 \<and>
           is_viable r = Some (min_viable_score c \<le> t \<and> exceeded_thresholds c m = []) \<and>
           (rejection_reason r = None \<longleftrightarrow> exceeded_thresholds c m = []) \<and>
           (exceeded_thresholds c m = [Time] \<longrightarrow>
              rejection_reason r =
                Some (time_message (m_time_diff_minutes m) (max_time_difference_minutes c)))"
proof -
  from score_pair_fields[OF assms] obtain m s where
    meas: "measurements E r1 r2 = Inr m" and
    tot: "total_score r = GREATEST2 (Some 0) (LEAST2 (Some 100) s)" and
    via: "is_viable r = sql_and (sql_ge (total_score r) (Some (min_viable_score c)))
                                 (Some (rejection_reason r = None))" and
    no: "\<not> exceeded c m Destination" "\<not> exceeded c m Pickup"
        "\<not> exceeded c m Overlap" "\<not> exceeded c m Detour" and
    rej: "rejection_reason r =
             (if exceeded c m Time
              then Some (time_message (m_time_diff_minutes m) (max_time_difference_minutes c))
              else None)"
    by blast
  have ex: "exceeded_thresholds c m = (if exceeded c m Time then [Time] else [])"
    unfolding exceeded_thresholds_def using no by simp
  have none: "rejection_reason r = None \<longleftrightarrow> exceeded_thresholds c m = []"
    unfolding rej ex by simp
  have time: "exceeded_thresholds c m = [Time] \<longrightarrow>
              rejection_reason r =
                Some (time_message (m_time_diff_minutes m) (max_time_difference_minutes c))"
    unfolding rej ex by simp
  from clamp_total[of s] tot obtain t where t: "total_score r = Some t" "0 \<le> t" "t \<le> 100"
    by auto
  have v: "is_viable r = Some (min_viable_score c \<le> t \<and> exceeded_thresholds c m = [])"
    unfolding via t(1) sql_ge_Some sql_and_Some none ..
  show ?thesis
    by (intro exI[of _ m] exI[of _ t] conjI) (rule meas t v none time)+
qed

lemma scored_viability:
  assumes "select_config d name = Some c"
      and "\<not> front_route_gate c (select_ride d r1) (select_ride d r2)"
      and "calculate_pool_viability_score E d r1 r2 name = Inr r"
  shows "\<exists>m t. measurements E (select_ride d r1) (select_ride d r2) = Inr m \<and>
           total_score r = Some t \<and> 0 \<le> t \<and> t \<le> 100 \<and>
           is_viable r = Some (min_viable_score c \<le> t \<and> exceeded_thresholds c m = []) \<and>
           (rejection_reason r = None \<longleftrightarrow> exceeded_thresholds c m = []) \<and>
           (exceeded_thresholds c m = [Time] \<longrightarrow>
              rejection_reason r =
                Some (time_message (m_time_diff_minutes m) (max_time_difference_minutes c)))"
proof -
  from assms have "score_pair E c (select_ride d r1) (select_ride d r2) = Inr r"
    by (simp add: calculate_pool_viability_score_def front_route_gate_def Let_def)
  then show ?thesis by (rule score_pair_Inr)
qed

lemma time_diff_zero:
  assumes "ride_created_at a = Some ta" "ride_created_at b = Some tb" "\<bar>ta - tb\<bar> < 30"
  shows "v_time_diff_minutes (Some a) (Some b) = Inr (Some 0)"
proof -
  have "\<bar>\<bar>(ta - tb) / 60\<bar>\<bar> < 1 / 2" using assms(3) by simp
  then have "round_half_away \<bar>(ta - tb) / 60\<bar> = 0" by (rule round_half_away_zero)
  then show ?thesis
    by (simp add: v_time_diff_minutes_def cast_integer_def fld_def assms(1,2) n_sub_def n_abs_def)
qed

lemma gate_open:
  assumes "is_on_front_route a \<noteq> Some False" "is_on_front_route b \<noteq> Some False"
  shows "\<not> front_route_gate c (Some a) (Some b)"
  using assms
  by (cases "is_on_front_route a"; cases "is_on_front_route b")
     (auto simp: front_route_gate_def is_true_def sql_and_def sql_or_def sql_not_def fld_def)

lemmas score_defs =
  v_dest_distance_km_def v_pickup_distance_km_def v_direct_distance_def
  v_combined_distance_def v_route_overlap_percent_def v_detour_percent_def
  km_def st_distance_def fld_def
  calculate_destination_proximity_score_def calculate_pickup_proximity_score_def
  calculate_route_overlap_score_def calculate_time_alignment_score_def
  calculate_detour_penalty_def
  ebind_def n_div_def n_add_def n_mul_def n_sub_def n_neg_def
  sql_gt_def sql_lt_def sql_ge_def sql_and_def is_true_def NULLIF_def LEAST2_def GREATEST2_def
  int_dec_def assign_reason_def extend_reason_def

lemma identical_pair_default:
  assumes same: "pickup_location a = Some p" "pickup_location b = Some p"
                "dropoff_location a = Some q" "dropoff_location b = Some q"
      and time: "v_time_diff_minutes (Some a) (Some b) = Inr (Some 0)"
      and metric: "ST_Distance E p p = 0" "ST_Distance E q q = 0"
  shows "\<exists>r. score_pair E default_config (Some a) (Some b) = Inr r \<and>
             total_score r = Some (if ST_Distance E p q = 0 then 100 else 90) \<and>
             is_viable r = Some True \<and> rejection_reason r = None"
proof (cases "ST_Distance E p q = 0")
  case True
  then show ?thesis
    by (simp add: score_pair_def Let_def default_config_def same time metric score_defs)
next
  case False
  then show ?thesis
    by (simp add: score_pair_def Let_def default_config_def same time metric score_defs)
qed

text \<open>
  The messages of the destination, pickup, overlap and detour thresholds are built with
  \<open>%.2f\<close> and \<open>%.1f\<close>: when the destination threshold is exceeded the engine raises
  instead of returning a rejection, as for rides 1 and 5, whose destinations are three
  kilometres apart.
\<close>

lemma destination_threshold_raises:
  assumes "is_true (sql_gt (v_dest_distance_km E r1 r2) (max_destination_distance_km c))"
  shows "score_pair E c r1 r2 =
           Inl (InvalidParameterValue ''unrecognized format() type specifier'')"
  using assms
  by (simp add: score_pair_def Let_def assign_reason_def format_destination_raises ebind_def)

lemma destinations_too_far_raises:
  "calculate_pool_viability_score grid_env rides_db (Some 1) (Some 5) ''default'' =
     Inl (InvalidParameterValue ''unrecognized format() type specifier'')"
  by code_simp

section \<open>Helper lemmas: joining\<close>

lemma find_map_list: "find P (map f xs) = map_option f (find (\<lambda>x. P (f x)) xs)"
  by (induction xs) auto


lemma fld_map_option:
  assumes "\<And>r. g (f r) = g r"
  shows "fld g (map_option f v) = fld g v"
  by (cases v) (simp_all add: fld_def assms)

lemma score_pair_cong:
  assumes "fld pickup_location a' = fld pickup_location a"
      and "fld dropoff_location a' = fld dropoff_location a"
      and "fld ride_created_at a' = fld ride_created_at a"
      and "fld pickup_location b' = fld pickup_location b"
      and "fld dropoff_location b' = fld dropoff_location b"
      and "fld ride_created_at b' = fld ride_created_at b"
  shows "score_pair E c a' b' = score_pair E c a b"
  unfolding score_pair_def v_dest_distance_km_def v_pickup_distance_km_def v_direct_distance_def
     v_combined_distance_def v_route_overlap_percent_def v_time_diff_minutes_def
     v_detour_percent_def assms ..

lemma score_ignores_pools_and_preferences:
  "calculate_pool_viability_score E
     (d\<lparr>pools := ps, rides := map (set_preferences vt g) (rides d)\<rparr>) r1 r2 name =
   calculate_pool_viability_score E d r1 r2 name"
proof -
  let ?d' = "d\<lparr>pools := ps, rides := map (set_preferences vt g) (rides d)\<rparr>"
  have sel: "select_ride ?d' rid = map_option (set_preferences vt g) (select_ride d rid)" for rid
    by (simp add: select_ride_def find_map_list set_preferences_def)
  have cfg: "select_config ?d' name = select_config d name"
    by (simp add: select_config_def)
  have f: "fld is_on_front_route (select_ride ?d' rid) = fld is_on_front_route (select_ride d rid)"
          "fld pickup_location (select_ride ?d' rid) = fld pickup_location (select_ride d rid)"
          "fld dropoff_location (select_ride ?d' rid) = fld dropoff_location (select_ride d rid)"
          "fld ride_created_at (select_ride ?d' rid) = fld ride_created_at (select_ride d rid)"
    for rid
    unfolding sel by (rule fld_map_option, simp add: set_preferences_def)+
  show ?thesis
    unfolding calculate_pool_viability_score_def cfg Let_def f(1)
    using score_pair_cong[OF f(2,3,4) f(2,3,4)]
    by (simp split: option.splits)
qed

section \<open>Helper lemmas: driver search\<close>











lemma is_true_eq_True: "is_true (sql_eq a (Some True)) \<longleftrightarrow> a = Some True"
  by (cases a) (auto simp: is_true_def sql_eq_def)





section \<open>Helper lemmas: vehicle locations\<close>

lemma deactivated_none_active:
  "filter (\<lambda>vl. loc_vehicle_id vl = v \<and> loc_is_active vl = Some True)
     (map (\<lambda>vl. if loc_vehicle_id vl = v \<and> loc_is_active vl = Some True
                 then vl\<lparr>loc_is_active := Some False\<rparr> else vl) xs) = []"
  by (induction xs) auto

lemma deactivated_keeps_ids:
  "\<not> list_ex (\<lambda>vl. loc_id vl = i) xs \<Longrightarrow>
   filter (\<lambda>vl. loc_id vl = i)
     (map (\<lambda>vl. if c vl then vl\<lparr>loc_is_active := Some False\<rparr> else vl) xs) = []"
  by (induction xs) auto

section \<open>Helper lemmas: the pool state machine\<close>

lemma next_status_terminal: "terminal st \<Longrightarrow> next_status st c m h = st"
  by (auto simp: terminal_def next_status_def)

lemma next_status_cancelled: "next_status st c m h = CANCELLED \<Longrightarrow> st = CANCELLED"
  by (auto simp: next_status_def split: if_splits)

lemma keeps_terminal_refl: "keeps_terminal p p"
  by (simp add: keeps_terminal_def)

lemma keeps_terminal_trans: "keeps_terminal p q \<Longrightarrow> keeps_terminal q r \<Longrightarrow> keeps_terminal p r"
  by (auto simp: keeps_terminal_def)

lemma keeps_imp_sticky: "keeps_terminal p q \<Longrightarrow> sticky p q"
  by (auto simp: keeps_terminal_def sticky_def)

lemma sticky_trans: "sticky p q \<Longrightarrow> sticky q r \<Longrightarrow> sticky p r"
  by (auto simp: sticky_def terminal_def)


lemma terminal_kept_refl: "terminal_kept d d"
  by (simp add: terminal_kept_def list_all2_same keeps_terminal_refl)

lemma terminal_kept_trans: "terminal_kept a b \<Longrightarrow> terminal_kept b c \<Longrightarrow> terminal_kept a c"
  unfolding terminal_kept_def by (rule list_all2_trans[OF keeps_terminal_trans])

lemma terminal_sticky_refl: "terminal_sticky d d"
  by (simp add: terminal_sticky_def list_all2_same sticky_def)

lemma terminal_sticky_trans: "terminal_sticky a b \<Longrightarrow> terminal_sticky b c \<Longrightarrow> terminal_sticky a c"
  unfolding terminal_sticky_def by (rule list_all2_trans[OF sticky_trans])

lemma kept_imp_sticky: "terminal_kept a b \<Longrightarrow> terminal_sticky a b"
  unfolding terminal_kept_def terminal_sticky_def
  by (erule list_all2_mono) (rule keeps_imp_sticky)

lemma update_pools_Inr:
  "update_pools d wh st = Inr d' \<Longrightarrow>
   d' = d\<lparr>pools := map (\<lambda>q. if wh q then st q else q) (pools d)\<rparr>"
  by (auto simp: update_pools_def split: list.splits)

lemma update_pools_rel:
  assumes "update_pools d wh st = Inr d'" and "\<And>q. R q (st q)" and "\<And>q. R q q"
  shows "list_all2 R (pools d) (pools d')"
  unfolding update_pools_Inr[OF assms(1)]
  by (simp add: list_all2_map2 list_all2_same assms(2,3))

lemma efold_rel:
  assumes step: "\<And>x s s'. f x s = Inr s' \<Longrightarrow> R s s'"
      and refl: "\<And>s. R s s" and trans: "\<And>a b c. R a b \<Longrightarrow> R b c \<Longrightarrow> R a c"
  shows "efold f xs s = Inr s' \<Longrightarrow> R s s'"
proof (induction xs arbitrary: s)
  case Nil then show ?case by (simp add: refl)
next
  case (Cons x xs)
  from Cons.prems obtain s1 where a: "f x s = Inr s1" and b: "efold f xs s1 = Inr s'"
    by (auto simp: ebind_Inr_iff)
  from trans[OF step[OF a] Cons.IH[OF b]] show ?case .
qed

lemma sync_pool_status_kept: "sync_pool_status d pid = Inr d' \<Longrightarrow> terminal_kept d d'"
  unfolding sync_pool_status_def terminal_kept_def
  by (auto simp: Let_def keeps_terminal_def next_status_terminal split: option.splits
           intro!: update_pools_rel list_all2_same[THEN iffD2])

lemma sync_pool_status_internal_kept:
  "sync_pool_status_internal d pid = Inr d' \<Longrightarrow> terminal_kept d d'"
  unfolding sync_pool_status_internal_def terminal_kept_def
  by (auto simp: Let_def keeps_terminal_def next_status_terminal split: option.splits
           intro!: update_pools_rel list_all2_same[THEN iffD2])

lemma update_pool_members_kept:
  assumes "update_pool_members d wh st = Inr d'"
  shows "terminal_kept d d'"
proof -
  let ?d1 = "d\<lparr>pool_members := map (\<lambda>pm. if wh pm then st pm else pm) (pool_members d)\<rparr>"
  from assms have "terminal_kept ?d1 d'"
    unfolding update_pool_members_def
    by (rule efold_rel[rotated 3]) (auto intro: sync_pool_status_kept terminal_kept_refl terminal_kept_trans)
  then show ?thesis by (simp add: terminal_kept_def)
qed

lemma delete_pool_members_kept:
  assumes "delete_pool_members d wh = Inr d'"
  shows "terminal_kept d d'"
proof -
  let ?d1 = "d\<lparr>pool_members := filter (\<lambda>pm. \<not> wh pm) (pool_members d)\<rparr>"
  from assms have "terminal_kept ?d1 d'"
    unfolding delete_pool_members_def
    by (rule efold_rel[rotated 3]) (auto intro: sync_pool_status_kept terminal_kept_refl terminal_kept_trans)
  then show ?thesis by (simp add: terminal_kept_def)
qed

lemma cascade_pool_cancellation_kept:
  assumes "cascade_pool_cancellation now d OLD NEW = Inr d'"
  shows "terminal_kept d d'"
proof (cases "status NEW = CANCELLED \<and> status OLD \<noteq> CANCELLED")
  case True
  with assms have "terminal_kept (d\<lparr>rides := map (\<lambda>r. if ride_pool_id r = Some (pool_id NEW) \<and>
                             ride_status r \<noteq> RIDE_COMPLETED \<and> ride_status r \<noteq> RIDE_CANCELLED
                          then r\<lparr>ride_status := RIDE_CANCELLED,
                                 cancelled_reason := Some ''Pool was cancelled''\<rparr>
                          else r) (rides d)\<rparr>) d'"
    by (auto simp: cascade_pool_cancellation_def intro: update_pool_members_kept)
  then show ?thesis by (simp add: terminal_kept_def)
next
  case False
  with assms show ?thesis by (auto simp: cascade_pool_cancellation_def terminal_kept_refl)
qed

lemma cascade_pool_cancel_kept: "cascade_pool_cancel now OLD d = Inr d' \<Longrightarrow> terminal_kept d d'"
  by (auto simp: cascade_pool_cancel_def Let_def terminal_kept_refl
           intro: cascade_pool_cancellation_kept split: if_splits)

lemma cancel_pool_sticky:
  assumes "cancel_pool now d pid = Inr d'"
  shows "terminal_sticky d d'"
proof -
  from assms obtain d1 where
    a: "update_pools d (\<lambda>q. pool_id q = pid)
          (\<lambda>q. q\<lparr>status := CANCELLED, pool_deleted_at := Some now\<rparr>) = Inr d1" and
    b: "efold (cascade_pool_cancel now) (filter (\<lambda>q. pool_id q = pid) (pools d)) d1 = Inr d'"
    by (auto simp: cancel_pool_def ebind_Inr_iff)
  have "terminal_sticky d d1"
    unfolding terminal_sticky_def by (rule update_pools_rel[OF a]) (simp_all add: sticky_def)
  moreover have "terminal_kept d1 d'"
    using b by (rule efold_rel[rotated 3])
       (auto intro: cascade_pool_cancel_kept terminal_kept_refl terminal_kept_trans)
  ultimately show ?thesis by (blast intro: terminal_sticky_trans kept_imp_sticky)
qed

lemma efold_invariant:
  assumes "I s" and "\<And>x s. x \<in> set xs \<Longrightarrow> I s \<Longrightarrow> \<exists>s'. f x s = Inr s' \<and> I s'"
  shows "\<exists>s'. efold f xs s = Inr s' \<and> I s'"
  using assms
proof (induction xs arbitrary: s)
  case Nil then show ?case by simp
next
  case (Cons x xs)
  from Cons.prems(2)[of x s] Cons.prems(1) obtain s1 where s1: "f x s = Inr s1" "I s1" by auto
  from Cons.IH[OF s1(2)] Cons.prems(2) obtain s' where "efold f xs s1 = Inr s'" "I s'"
    by (metis list.set_intros(2))
  with s1 show ?case by (auto simp: ebind_def)
qed

lemma update_pools_ok:
  assumes "\<And>q. q \<in> set (pools d) \<Longrightarrow> wh q \<Longrightarrow> pool_check_violation (st q) = None"
  shows "update_pools d wh st = Inr (d\<lparr>pools := map (\<lambda>q. if wh q then st q else q) (pools d)\<rparr>)"
proof -
  have "List.map_filter pool_check_violation (map st (filter wh (pools d))) = []"
    using assms by (induction "pools d" arbitrary: d) (auto simp: List.map_filter_def filter_empty_conv)
  then show ?thesis by (simp add: update_pools_def)
qed

subsection \<open>The cancellation of a pool\<close>

lemma efold_single: "efold f [x] s = f x s"
  by (cases "f x s") (simp_all add: ebind_def)

lemma select_pool_SomeD: "select_pool d pid = Some p \<Longrightarrow> p \<in> set (pools d) \<and> pool_id p = pid"
  unfolding select_pool_def by (auto simp: find_Some_iff)

lemma select_pool_exists:
  assumes "pid \<in> set (map pool_id (pools d))"
  shows "\<exists>q. select_pool d pid = Some q \<and> q \<in> set (pools d) \<and> pool_id q = pid"
proof -
  from assms have "find (\<lambda>p. pool_id p = pid) (pools d) \<noteq> None"
    by (auto simp: find_None_iff)
  then obtain q where "select_pool d pid = Some q" by (auto simp: select_pool_def)
  with select_pool_SomeD[OF this] show ?thesis by blast
qed

lemma filter_unique:
  assumes "distinct (map f xs)" and "find (\<lambda>x. f x = k) xs = Some p"
  shows "filter (\<lambda>x. f x = k) xs = [p]"
  using assms
proof (induction xs)
  case Nil then show ?case by simp
next
  case (Cons x xs)
  show ?case
  proof (cases "f x = k")
    case True
    with Cons.prems have "p = x" and "k \<notin> f ` set xs" by auto
    then have "filter (\<lambda>x. f x = k) xs = []" by (auto simp: filter_empty_conv)
    with True \<open>p = x\<close> show ?thesis by simp
  next
    case False
    with Cons show ?thesis by simp
  qed
qed

lemma map_pool_id_update:
  "(\<And>q. pool_id (f q) = pool_id q) \<Longrightarrow>
   map pool_id (map (\<lambda>q. if wh q then f q else q) ps) = map pool_id ps"
  by (induction ps) auto

lemma counted_members_none:
  assumes "\<forall>pm \<in> set (pool_members s). member_pool_id pm = pid \<longrightarrow> left_at pm \<noteq> None"
  shows "counted_members s pid = []"
  using assms by (auto simp: counted_members_def filter_empty_conv)

lemma sync_after_cancel:
  assumes pools: "\<forall>q \<in> set (pools s). pool_id q = pid \<longrightarrow> status q = CANCELLED \<and> 0 \<le> max_passengers q"
      and members: "\<forall>pm \<in> set (pool_members s). member_pool_id pm = pid \<longrightarrow> left_at pm \<noteq> None"
  shows "\<exists>s'. sync_pool_status s pid = Inr s' \<and> rides s' = rides s \<and>
           pool_members s' = pool_members s \<and> notifications s' = notifications s \<and>
           map pool_id (pools s') = map pool_id (pools s) \<and>
           (\<forall>q \<in> set (pools s'). pool_id q = pid \<longrightarrow> status q = CANCELLED \<and> 0 \<le> max_passengers q)"
proof (cases "select_pool s pid")
  case None
  with pools show ?thesis by (simp add: sync_pool_status_def)
next
  case (Some p0)
  let ?st = "\<lambda>q. q\<lparr>current_passengers := 0,
                    status := next_status (status q) 0 (min_passengers_to_start p0)
                                (pool_driver_id p0 \<noteq> None)\<rparr>"
  let ?s' = "s\<lparr>pools := map (\<lambda>q. if pool_id q = pid then ?st q else q) (pools s)\<rparr>"
  have st: "status (?st q) = CANCELLED" if "q \<in> set (pools s)" "pool_id q = pid" for q
    using pools that by (simp add: next_status_terminal terminal_def)
  have "update_pools s (\<lambda>q. pool_id q = pid) ?st = Inr ?s'"
  proof (rule update_pools_ok)
    fix q assume q: "q \<in> set (pools s)" "pool_id q = pid"
    with pools have "0 \<le> max_passengers q" by blast
    with st[OF q] show "pool_check_violation (?st q) = None"
      by (simp add: pool_check_violation_def)
  qed
  then have run: "sync_pool_status s pid = Inr ?s'"
    by (simp add: sync_pool_status_def Some Let_def counted_members_none[OF members])
  have ids: "map pool_id (pools ?s') = map pool_id (pools s)"
    by (simp add: map_pool_id_update)
  have keep: "\<forall>q' \<in> set (pools ?s'). pool_id q' = pid \<longrightarrow>
                 status q' = CANCELLED \<and> 0 \<le> max_passengers q'"
  proof (intro ballI impI)
    fix q' assume a: "q' \<in> set (pools ?s')" "pool_id q' = pid"
    from a(1) obtain q where q: "q \<in> set (pools s)"
      "q' = (if pool_id q = pid then ?st q else q)" by auto
    with a(2) have pq: "pool_id q = pid" by (simp split: if_splits)
    from pools q(1) pq have "0 \<le> max_passengers q" by blast
    with q(2) pq st[OF q(1) pq] show "status q' = CANCELLED \<and> 0 \<le> max_passengers q'"
      by simp
  qed
  show ?thesis
  proof (intro exI conjI)
    show "sync_pool_status s pid = Inr ?s'" by (rule run)
    show "rides ?s' = rides s" by simp
    show "pool_members ?s' = pool_members s" by simp
    show "notifications ?s' = notifications s" by simp
    show "map pool_id (pools ?s') = map pool_id (pools s)" by (rule ids)
    show "\<forall>q \<in> set (pools ?s'). pool_id q = pid \<longrightarrow>
            status q = CANCELLED \<and> 0 \<le> max_passengers q" by (rule keep)
  qed
qed

lemma cancelled_ride_map:
  "map (\<lambda>r. if ride_pool_id r = Some pid \<and>
                 ride_status r \<noteq> RIDE_COMPLETED \<and> ride_status r \<noteq> RIDE_CANCELLED
              then r\<lparr>ride_status := RIDE_CANCELLED,
                     cancelled_reason := Some ''Pool was cancelled''\<rparr>
              else r) rs = map (cancelled_ride pid) rs"
  unfolding cancelled_ride_def[abs_def] by (rule refl)

lemma left_member_map:
  "map (\<lambda>pm. if member_pool_id pm = pid \<and> left_at pm = None
               then pm\<lparr>left_at := Some now\<rparr> else pm) ms = map (left_member now pid) ms"
  unfolding left_member_def[abs_def] by (rule refl)

lemma left_member_gone:
  assumes "pm \<in> set (map (left_member now pid) ms)" and "member_pool_id pm = pid"
  shows "left_at pm \<noteq> None"
proof -
  from assms(1) obtain m where m: "m \<in> set ms" and pm: "pm = left_member now pid m"
    by (auto simp: image_iff)
  show ?thesis
  proof (cases "member_pool_id m = pid \<and> left_at m = None")
    case True
    then have "pm = m\<lparr>left_at := Some now\<rparr>" unfolding pm left_member_def by simp
    then show ?thesis by simp
  next
    case False
    then have e: "pm = m" unfolding pm left_member_def by simp
    with assms(2) False show ?thesis by simp
  qed
qed


lemma left_members_sync:
  assumes pools: "\<forall>q \<in> set (pools s). pool_id q = pid \<longrightarrow> status q = CANCELLED \<and> 0 \<le> max_passengers q"
      and gone: "\<forall>pm \<in> set (pool_members s). member_pool_id pm = pid \<longrightarrow> left_at pm \<noteq> None"
      and xs: "\<forall>x \<in> set xs. member_pool_id x = pid"
  shows "\<exists>s'. efold (\<lambda>pm d'. sync_pool_status d' (member_pool_id pm)) xs s = Inr s' \<and>
           rides s' = rides s \<and> pool_members s' = pool_members s \<and>
           notifications s' = notifications s \<and>
           map pool_id (pools s') = map pool_id (pools s) \<and>
           (\<forall>q \<in> set (pools s'). pool_id q = pid \<longrightarrow> status q = CANCELLED \<and> 0 \<le> max_passengers q)"
  using assms
proof (induction xs arbitrary: s)
  case Nil
  then show ?case by simp
next
  case (Cons x xs)
  from Cons.prems(3) have pid: "member_pool_id x = pid" by simp
  from sync_after_cancel[OF Cons.prems(1) Cons.prems(2)]
  obtain s1 where s1: "sync_pool_status s pid = Inr s1" and r1: "rides s1 = rides s"
    and m1: "pool_members s1 = pool_members s" and n1: "notifications s1 = notifications s"
    and i1: "map pool_id (pools s1) = map pool_id (pools s)"
    and k1: "\<forall>q \<in> set (pools s1). pool_id q = pid \<longrightarrow> status q = CANCELLED \<and> 0 \<le> max_passengers q"
    by blast
  from Cons.prems(2) have g1: "\<forall>pm \<in> set (pool_members s1). member_pool_id pm = pid \<longrightarrow> left_at pm \<noteq> None"
    unfolding m1 .
  from Cons.prems(3) have x1: "\<forall>x \<in> set xs. member_pool_id x = pid" by simp
  from Cons.IH[OF k1 g1 x1]
  obtain s' where s': "efold (\<lambda>pm d'. sync_pool_status d' (member_pool_id pm)) xs s1 = Inr s'"
    and r: "rides s' = rides s1" and m: "pool_members s' = pool_members s1"
    and n: "notifications s' = notifications s1"
    and i: "map pool_id (pools s') = map pool_id (pools s1)"
    and k: "\<forall>q \<in> set (pools s'). pool_id q = pid \<longrightarrow> status q = CANCELLED \<and> 0 \<le> max_passengers q"
    by blast
  have e: "efold (\<lambda>pm d'. sync_pool_status d' (member_pool_id pm)) (x # xs) s = Inr s'"
    by (simp add: ebind_def pid s1 s')
  show ?case
  proof (rule exI[of _ s'], intro conjI)
    show "efold (\<lambda>pm d'. sync_pool_status d' (member_pool_id pm)) (x # xs) s = Inr s'"
      by (rule e)
    show "rides s' = rides s" using r r1 by (rule trans)
    show "pool_members s' = pool_members s" using m m1 by (rule trans)
    show "notifications s' = notifications s" using n n1 by (rule trans)
    show "map pool_id (pools s') = map pool_id (pools s)" using i i1 by (rule trans)
    show "\<forall>q \<in> set (pools s'). pool_id q = pid \<longrightarrow> status q = CANCELLED \<and> 0 \<le> max_passengers q"
      by (rule k)
  qed
qed

lemma cascade_pool_cancellation_effect:
  assumes pools: "\<forall>q \<in> set (pools s). pool_id q = pool_id NEW \<longrightarrow> status q = CANCELLED \<and> 0 \<le> max_passengers q"
      and st: "status NEW = CANCELLED" "status OLD \<noteq> CANCELLED"
  shows "\<exists>s'. cascade_pool_cancellation now s OLD NEW = Inr s' \<and>
           rides s' = map (cancelled_ride (pool_id NEW)) (rides s) \<and>
           pool_members s' = map (left_member now (pool_id NEW)) (pool_members s) \<and>
           notifications s' = notifications s \<and>
           map pool_id (pools s') = map pool_id (pools s) \<and>
           (\<forall>q \<in> set (pools s'). pool_id q = pool_id NEW \<longrightarrow> status q = CANCELLED \<and> 0 \<le> max_passengers q)"
proof -
  let ?pid = "pool_id NEW"
  let ?wh = "\<lambda>pm. member_pool_id pm = ?pid \<and> left_at pm = None"
  let ?s3 = "s\<lparr>rides := map (cancelled_ride ?pid) (rides s),
               pool_members := map (left_member now ?pid) (pool_members s)\<rparr>"
  have c: "cascade_pool_cancellation now s OLD NEW =
             efold (\<lambda>pm d'. sync_pool_status d' (member_pool_id pm))
               (filter ?wh (pool_members s)) ?s3"
    unfolding cascade_pool_cancellation_def update_pool_members_def cancelled_ride_map
    using st by (simp add: left_member_map)
  have p3: "\<forall>q \<in> set (pools ?s3). pool_id q = ?pid \<longrightarrow> status q = CANCELLED \<and> 0 \<le> max_passengers q"
    using pools by simp
  have g3: "\<forall>pm \<in> set (pool_members ?s3). member_pool_id pm = ?pid \<longrightarrow> left_at pm \<noteq> None"
  proof (intro ballI impI)
    fix pm assume "pm \<in> set (pool_members ?s3)" and e: "member_pool_id pm = ?pid"
    then have "pm \<in> set (map (left_member now ?pid) (pool_members s))" by simp
    from left_member_gone[OF this e] show "left_at pm \<noteq> None" .
  qed
  have x3: "\<forall>x \<in> set (filter ?wh (pool_members s)). member_pool_id x = ?pid" by simp
  from left_members_sync[OF p3 g3 x3]
  obtain s' where s': "efold (\<lambda>pm d'. sync_pool_status d' (member_pool_id pm))
                         (filter ?wh (pool_members s)) ?s3 = Inr s'"
    and r: "rides s' = rides ?s3" and m: "pool_members s' = pool_members ?s3"
    and n: "notifications s' = notifications ?s3"
    and i: "map pool_id (pools s') = map pool_id (pools ?s3)"
    and k: "\<forall>q \<in> set (pools s'). pool_id q = ?pid \<longrightarrow> status q = CANCELLED \<and> 0 \<le> max_passengers q"
    by blast
  show ?thesis
  proof (rule exI[of _ s'], intro conjI)
    show "cascade_pool_cancellation now s OLD NEW = Inr s'" unfolding c by (rule s')
    show "rides s' = map (cancelled_ride ?pid) (rides s)" unfolding r by simp
    show "pool_members s' = map (left_member now ?pid) (pool_members s)" unfolding m by simp
    show "notifications s' = notifications s" unfolding n by simp
    show "map pool_id (pools s') = map pool_id (pools s)" unfolding i by simp
    show "\<forall>q \<in> set (pools s'). pool_id q = ?pid \<longrightarrow> status q = CANCELLED \<and> 0 \<le> max_passengers q"
      by (rule k)
  qed
qed

lemma cancel_pool_effect:
  assumes valid: "pools_valid d" and sel: "select_pool d pid = Some p"
  shows "\<exists>d'. cancel_pool now d pid = Inr d' \<and>
           map_option status (select_pool d' pid) = Some CANCELLED \<and>
           notifications d' = notifications d \<and>
           (status p \<noteq> CANCELLED \<longrightarrow>
              rides d' = map (cancelled_ride pid) (rides d) \<and>
              pool_members d' = map (left_member now pid) (pool_members d)) \<and>
           (status p = CANCELLED \<longrightarrow> rides d' = rides d \<and> pool_members d' = pool_members d)"
proof -
  let ?st = "\<lambda>q. q\<lparr>status := CANCELLED, pool_deleted_at := Some now\<rparr>"
  let ?d1 = "d\<lparr>pools := map (\<lambda>q. if pool_id q = pid then ?st q else q) (pools d)\<rparr>"
  from select_pool_SomeD[OF sel] have p: "p \<in> set (pools d)" "pool_id p = pid" by auto
  from valid have dist: "distinct (map pool_id (pools d))"
    and chk: "\<And>q. q \<in> set (pools d) \<Longrightarrow> 0 < max_passengers q \<and> pool_check_violation q = None"
    by (auto simp: pools_valid_def list_all_iff)
  have up: "update_pools d (\<lambda>q. pool_id q = pid) ?st = Inr ?d1"
  proof (rule update_pools_ok)
    fix q assume "q \<in> set (pools d)" "pool_id q = pid"
    from chk[OF this(1)] show "pool_check_violation (?st q) = None"
      by (auto simp: pool_check_violation_def split: if_splits)
  qed
  have filt: "filter (\<lambda>q. pool_id q = pid) (pools d) = [p]"
    using filter_unique[OF dist, of pid p] sel by (simp add: select_pool_def)
  have cp: "cancel_pool now d pid = cascade_pool_cancel now p ?d1"
    by (simp add: cancel_pool_def up filt ebind_def efold_single del: efold.simps)
  have ids1: "map pool_id (pools ?d1) = map pool_id (pools d)"
    by (simp add: map_pool_id_update)
  have pools1: "\<forall>q \<in> set (pools ?d1). pool_id q = pid \<longrightarrow> status q = CANCELLED \<and> 0 \<le> max_passengers q"
  proof (intro ballI impI)
    fix q' assume q': "q' \<in> set (pools ?d1)" "pool_id q' = pid"
    from q'(1) obtain q where q: "q \<in> set (pools d)"
      "q' = (if pool_id q = pid then ?st q else q)"
      by auto
    with q'(2) have pq: "pool_id q = pid" by (simp split: if_splits)
    from chk[OF q(1)] have "0 \<le> max_passengers q" by simp
    with q(2) pq show "status q' = CANCELLED \<and> 0 \<le> max_passengers q'" by simp
  qed
  have final: "map_option status (select_pool d' pid) = Some CANCELLED"
    if "map pool_id (pools d') = map pool_id (pools d)"
      and "\<forall>q \<in> set (pools d'). pool_id q = pid \<longrightarrow> status q = CANCELLED \<and> 0 \<le> max_passengers q"
    for d'
  proof -
    have "pid \<in> set (map pool_id (pools d'))" using p that(1) by (metis image_eqI list.set_map)
    from select_pool_exists[OF this] that(2) show ?thesis by auto
  qed
  show ?thesis
  proof (cases "status p = CANCELLED")
    case True
    then have c: "cancel_pool now d pid = Inr ?d1"
      by (simp add: cp cascade_pool_cancel_def Let_def)
    show ?thesis
    proof (rule exI[of _ "?d1"], intro conjI impI)
      show "cancel_pool now d pid = Inr ?d1" by (rule c)
      show "map_option status (select_pool ?d1 pid) = Some CANCELLED"
        by (rule final[OF ids1 pools1])
      show "notifications ?d1 = notifications d" by simp
      show "rides ?d1 = rides d" by simp
      show "pool_members ?d1 = pool_members d" by simp
      show "rides ?d1 = map (cancelled_ride pid) (rides d)" if "status p \<noteq> CANCELLED"
        using that True by contradiction
      show "pool_members ?d1 = map (left_member now pid) (pool_members d)"
        if "status p \<noteq> CANCELLED"
        using that True by contradiction
    qed
  next
    case False
    let ?NEW = "p\<lparr>status := CANCELLED, pool_deleted_at := Some now\<rparr>"
    have idn: "pool_id ?NEW = pid" using p(2) by simp
    have stn: "status ?NEW = CANCELLED" by simp
    have cp2: "cancel_pool now d pid = cascade_pool_cancellation now ?d1 p ?NEW"
      unfolding cp cascade_pool_cancel_def Let_def using False by simp
    have pools1': "\<forall>q \<in> set (pools ?d1). pool_id q = pool_id ?NEW \<longrightarrow>
                      status q = CANCELLED \<and> 0 \<le> max_passengers q"
      unfolding idn by (rule pools1)
    from cascade_pool_cancellation_effect[OF pools1' stn False, of now, unfolded idn]
    obtain d' where c: "cascade_pool_cancellation now ?d1 p ?NEW = Inr d'"
      and r: "rides d' = map (cancelled_ride pid) (rides ?d1)"
      and m: "pool_members d' = map (left_member now pid) (pool_members ?d1)"
      and n: "notifications d' = notifications ?d1"
      and i: "map pool_id (pools d') = map pool_id (pools ?d1)"
      and k: "\<forall>q \<in> set (pools d'). pool_id q = pid \<longrightarrow> status q = CANCELLED \<and> 0 \<le> max_passengers q"
      by blast
    show ?thesis
    proof (rule exI[of _ d'], intro conjI impI)
      show "cancel_pool now d pid = Inr d'" unfolding cp2 by (rule c)
      show "map_option status (select_pool d' pid) = Some CANCELLED"
        by (rule final[OF trans[OF i ids1] k])
      show "notifications d' = notifications d" unfolding n by simp
      show "rides d' = map (cancelled_ride pid) (rides d)" unfolding r by simp
      show "pool_members d' = map (left_member now pid) (pool_members d)" unfolding m by simp
      show "rides d' = rides d" if "status p = CANCELLED" using that False by contradiction
      show "pool_members d' = pool_members d" if "status p = CANCELLED"
        using that False by contradiction
    qed
  qed
qed

subsection \<open>The scoring trigger\<close>

lemma efold_preserves:
  assumes "\<And>x s s'. f x s = Inr s' \<Longrightarrow> g s' = g s"
      and "efold f xs s = Inr s'"
  shows "g s' = g s"
  using assms(2)
proof (induction xs arbitrary: s)
  case Nil then show ?case by simp
next
  case (Cons x xs)
  from Cons.prems obtain s1 where a: "f x s = Inr s1" and b: "efold f xs s1 = Inr s'"
    by (auto simp: ebind_Inr_iff)
  from Cons.IH[OF b] assms(1)[OF a] show ?case by (rule trans)
qed

lemma sync_pool_status_members:
  "sync_pool_status d pid = Inr d' \<Longrightarrow> pool_members d' = pool_members d"
  unfolding sync_pool_status_def
  by (auto simp: Let_def split: option.splits dest!: update_pools_Inr)

lemma update_pool_members_rows:
  assumes "update_pool_members d wh st = Inr d'"
  shows "pool_members d' = map (\<lambda>pm. if wh pm then st pm else pm) (pool_members d)"
proof -
  let ?d1 = "d\<lparr>pool_members := map (\<lambda>pm. if wh pm then st pm else pm) (pool_members d)\<rparr>"
  have "pool_members d' = pool_members ?d1"
    by (rule efold_preserves[where g = pool_members, OF _ assms[unfolded update_pool_members_def]])
       (rule sync_pool_status_members)
  then show ?thesis by simp
qed

lemma member_pools_update:
  assumes "\<And>pm. member_pool_id (st pm) = member_pool_id pm"
  shows "map member_pool_id (map (\<lambda>pm. if wh pm then st pm else pm) ms) = map member_pool_id ms"
  by (induction ms) (simp_all add: assms)

lemma cascade_pool_cancellation_member_pools:
  assumes "cascade_pool_cancellation now d OLD NEW = Inr d'"
  shows "map member_pool_id (pool_members d') = map member_pool_id (pool_members d)"
proof (cases "status NEW = CANCELLED \<and> status OLD \<noteq> CANCELLED")
  case True
  with assms have "update_pool_members
      (d\<lparr>rides := map (cancelled_ride (pool_id NEW)) (rides d)\<rparr>)
      (\<lambda>pm. member_pool_id pm = pool_id NEW \<and> left_at pm = None)
      (\<lambda>pm. pm\<lparr>left_at := Some now\<rparr>) = Inr d'"
    unfolding cascade_pool_cancellation_def cancelled_ride_map by simp
  from update_pool_members_rows[OF this] show ?thesis
    by (simp add: member_pools_update)
next
  case False
  with assms show ?thesis by (auto simp: cascade_pool_cancellation_def)
qed

lemma cascade_pool_cancel_member_pools:
  "cascade_pool_cancel now OLD d = Inr d' \<Longrightarrow>
   map member_pool_id (pool_members d') = map member_pool_id (pool_members d)"
  unfolding cascade_pool_cancel_def Let_def
  by (auto dest: cascade_pool_cancellation_member_pools split: if_splits)

lemma cancel_pool_member_pools:
  assumes "cancel_pool now d pid = Inr d'"
  shows "map member_pool_id (pool_members d') = map member_pool_id (pool_members d)"
proof -
  from assms obtain d1 where
    a: "update_pools d (\<lambda>q. pool_id q = pid)
          (\<lambda>q. q\<lparr>status := CANCELLED, pool_deleted_at := Some now\<rparr>) = Inr d1" and
    b: "efold (cascade_pool_cancel now) (filter (\<lambda>q. pool_id q = pid) (pools d)) d1 = Inr d'"
    by (auto simp: cancel_pool_def ebind_Inr_iff)
  have "map member_pool_id (pool_members d') = map member_pool_id (pool_members d1)"
    by (rule efold_preserves[where g = "\<lambda>s. map member_pool_id (pool_members s)", OF _ b])
       (rule cascade_pool_cancel_member_pools)
  moreover from update_pools_Inr[OF a] have "pool_members d1 = pool_members d" by simp
  ultimately show ?thesis by simp
qed

lemma counted_members_pool:
  "pm \<in> set (counted_members d pid) \<Longrightarrow> pid \<in> set (map member_pool_id (pool_members d))"
  by (auto simp: counted_members_def split: if_splits)

lemma pool_cancelled_notification_raises:
  "pool_cancelled_notification E pid res pm =
   Inl (InvalidParameterValue ''unrecognized format() type specifier'')"
  by (simp add: pool_cancelled_notification_def format_notification_raises ebind_def)

lemma emap_raises:
  assumes "\<And>x. f x = Inl e" and "xs \<noteq> []"
  shows "emap f xs = Inl e"
  using assms(2) by (cases xs) (simp_all add: assms(1) ebind_def)

lemma update_pool_viability_score_kept:
  assumes "update_pool_viability_score E now d NEW = Inr d'"
  shows "terminal_kept d d'"
proof (cases "length (counted_members d (member_pool_id NEW)) = 2")
  case False
  with assms show ?thesis
    by (simp add: update_pool_viability_score_def Let_def terminal_kept_refl)
next
  case True
  let ?pid = "member_pool_id NEW"
  let ?rows = "\<lambda>s. filter (\<lambda>pm. member_pool_id pm = ?pid) (pool_members s)"
  from True assms obtain res d1 d2 where
    a: "update_pools d (\<lambda>q. pool_id q = ?pid)
          (\<lambda>q. q\<lparr>viability_score := ROUND (total_score res) 2,
                  score_breakdown := Some (breakdown res)\<rparr>) = Inr d1" and
    b: "update_pool_members d1 (\<lambda>pm. member_id pm = member_id NEW)
          (\<lambda>pm. pm\<lparr>join_score := ROUND (total_score res) 2,
                    join_score_breakdown := Some (breakdown res)\<rparr>) = Inr d2" and
    c: "(if is_true (sql_not (is_viable res)) then
           ebind (cancel_pool now d2 ?pid)
             (\<lambda>d3. ebind (emap (pool_cancelled_notification E ?pid res) (?rows d3))
                (\<lambda>rows. Inr (d3\<lparr>notifications := notifications d3 @ rows\<rparr>)))
         else Inr d2) = Inr d'"
    by (auto simp: update_pool_viability_score_def Let_def ebind_Inr_iff)
  have k1: "terminal_kept d d1"
    unfolding terminal_kept_def
    by (rule update_pools_rel[OF a]) (simp_all add: keeps_terminal_def)
  have k2: "terminal_kept d1 d2" by (rule update_pool_members_kept[OF b])
  have viable: "\<not> is_true (sql_not (is_viable res))"
  proof
    assume nv: "is_true (sql_not (is_viable res))"
    with c obtain d3 rows where d3: "cancel_pool now d2 ?pid = Inr d3"
      and rows: "emap (pool_cancelled_notification E ?pid res) (?rows d3) = Inr rows"
      by (auto simp: ebind_Inr_iff)
    from True obtain pm where "pm \<in> set (counted_members d ?pid)"
      by (cases "counted_members d ?pid") auto
    then have "?pid \<in> set (map member_pool_id (pool_members d))"
      by (rule counted_members_pool)
    moreover have "map member_pool_id (pool_members d3) = map member_pool_id (pool_members d)"
      using cancel_pool_member_pools[OF d3] update_pool_members_rows[OF b]
        update_pools_Inr[OF a]
      by (simp add: member_pools_update)
    ultimately have "?pid \<in> set (map member_pool_id (pool_members d3))" by simp
    then have "?rows d3 \<noteq> []" by (auto simp: filter_empty_conv)
    from emap_raises[OF pool_cancelled_notification_raises this] rows
    show False by simp
  qed
  with c have "d' = d2" by simp
  with k1 k2 show ?thesis by (blast intro: terminal_kept_trans)
qed

lemma insert_pool_member_kept:
  assumes "insert_pool_member E now d NEW = Inr d'"
  shows "terminal_kept d d'"
proof -
  from assms obtain d1 where
    a: "sync_pool_status (d\<lparr>pool_members := pool_members d @ [NEW]\<rparr>) (member_pool_id NEW) = Inr d1"
    and b: "update_pool_viability_score E now d1 NEW = Inr d'"
    by (auto simp: insert_pool_member_def ebind_Inr_iff split: if_splits)
  from sync_pool_status_kept[OF a] have "terminal_kept d d1" by (simp add: terminal_kept_def)
  with update_pool_viability_score_kept[OF b] show ?thesis
    by (blast intro: terminal_kept_trans)
qed

lemma set_pool_driver_kept:
  assumes "set_pool_driver d pid drv veh = Inr d'"
  shows "terminal_kept d d'"
proof -
  from assms obtain d1 where
    a: "update_pools d (\<lambda>q. pool_id q = pid)
          (\<lambda>q. q\<lparr>pool_driver_id := drv, pool_vehicle_id := veh\<rparr>) = Inr d1" and
    b: "efold (\<lambda>OLD d'.
                 if pool_driver_id OLD \<noteq> drv \<and> drv \<noteq> None \<and>
                    \<not> list_ex (\<lambda>u. Some (user_id u) = drv) (users d')
                 then Inl (ForeignKeyViolation ''pools_driver_id_fkey'')
                 else if pool_vehicle_id OLD \<noteq> veh \<and> veh \<noteq> None \<and>
                    \<not> list_ex (\<lambda>v. Some (vehicle_id v) = veh) (vehicles d')
                 then Inl (ForeignKeyViolation ''pools_vehicle_id_fkey'')
                 else if pool_driver_id OLD \<noteq> drv
                 then sync_pool_status_internal d' (pool_id OLD) else Inr d')
          (filter (\<lambda>q. pool_id q = pid) (pools d)) d1 = Inr d'"
    by (auto simp: set_pool_driver_def ebind_Inr_iff)
  have "terminal_kept d d1"
    unfolding terminal_kept_def
    by (rule update_pools_rel[OF a]) (simp_all add: keeps_terminal_def)
  moreover have "terminal_kept d1 d'"
    using b by (rule efold_rel[rotated 3])
       (auto intro: sync_pool_status_internal_kept terminal_kept_refl terminal_kept_trans
             split: if_splits)
  ultimately show ?thesis by (rule terminal_kept_trans)
qed

lemma perform_kept:
  assumes "perform E now d ev = Inr d'"
  shows "terminal_kept d d'"
  using assms
  by (cases ev)
     (auto intro: insert_pool_member_kept update_pool_members_kept delete_pool_members_kept
                  set_pool_driver_kept sync_pool_status_internal_kept)

lemma run_kept: "terminal_kept d (run E d evs)"
proof (induction evs arbitrary: d)
  case Nil show ?case by (simp add: terminal_kept_refl)
next
  case (Cons a evs)
  obtain now ev where a: "a = (now, ev)" by (cases a)
  show ?case
  proof (cases "perform E now d ev")
    case (Inl e)
    with a Cons.IH[of d] show ?thesis by simp
  next
    case (Inr d1)
    from perform_kept[OF Inr] Cons.IH[of d1] a Inr show ?thesis
      by (auto intro: terminal_kept_trans)
  qed
qed

section \<open>The scoring engine: claims\<close>

text \<open>
  Claim C1, as stated, fails where the engine stops at the front-route check.  With a
  minimum viable score of 0 and ride 4 off the front route, the result has total score 0,
  which is at least the minimum, none of the five thresholds is exceeded by the measured
  quantities, and yet \<open>is_viable\<close> is false.
\<close>

theorem viability_rule_counterexample:
  "select_config lenient_db ''default'' = Some lenient_config \<and>
   calculate_pool_viability_score grid_env lenient_db (Some 1) (Some 4) ''default'' =
     Inr \<lparr>total_score = Some 0, is_viable = Some False, breakdown = JObject [],
          rejection_reason = Some ''One or both riders are not on the front route''\<rparr> \<and>
   min_viable_score lenient_config \<le> 0 \<and>
   measurements grid_env (select_ride lenient_db (Some 1)) (select_ride lenient_db (Some 4)) =
     Inr \<lparr>m_dest_km = Some 0, m_pickup_km = Some 0, m_overlap_percent = Some 100,
          m_time_diff_minutes = Some 0, m_detour_percent = Some 0\<rparr> \<and>
   exceeded_thresholds lenient_config
     \<lparr>m_dest_km = Some 0, m_pickup_km = Some 0, m_overlap_percent = Some 100,
      m_time_diff_minutes = Some 0, m_detour_percent = Some 0\<rparr> = []"
  by code_simp

text \<open>
  Claim C1, amended: for every pair of ride requests and every active scoring
  configuration on which the engine does not stop at the front-route check, every result
  the engine returns has its total score clamped to 0..100, has \<open>is_viable\<close> true exactly
  when the total is at least \<open>min_viable_score\<close> and none of the five thresholds
  (destination distance, pickup distance, route overlap, time difference, detour percent)
  is exceeded, and has a rejection reason exactly when some threshold is exceeded; when
  the time difference is the one threshold exceeded, the reason is its message with the
  two numbers of minutes.  Second conjunct: rides 1 and 3, eleven minutes apart, score 75
  against a minimum of 60 and are not viable.
\<close>

theorem viability_rule:
  "(\<forall>E d r1 r2 name c r.
      select_config d name = Some c \<and>
      \<not> front_route_gate c (select_ride d r1) (select_ride d r2) \<and>
      calculate_pool_viability_score E d r1 r2 name = Inr r \<longrightarrow>
      (\<exists>m t. measurements E (select_ride d r1) (select_ride d r2) = Inr m \<and>
         total_score r = Some t \<and> 0 \<le> t \<and> t \<le> 100 \<and>
         is_viable r = Some (min_viable_score c \<le> t \<and> exceeded_thresholds c m = []) \<and>
         (rejection_reason r = None \<longleftrightarrow> exceeded_thresholds c m = []) \<and>
         (exceeded_thresholds c m = [Time] \<longrightarrow>
            rejection_reason r =
              Some (time_message (m_time_diff_minutes m) (max_time_difference_minutes c))))) \<and>
   (map_sum id (\<lambda>r. (total_score r, is_viable r, rejection_reason r))
      (calculate_pool_viability_score grid_env rides_db (Some 1) (Some 3) ''default'') =
      Inr (Some 75, Some False,
           Some ''Requests too far apart in time: 11 minutes (max: 10 minutes)'') \<and>
    min_viable_score default_config \<le> 75)"
proof (intro conjI allI impI)
  fix E d r1 r2 name c r
  assume "select_config d name = Some c \<and>
      \<not> front_route_gate c (select_ride d r1) (select_ride d r2) \<and>
      calculate_pool_viability_score E d r1 r2 name = Inr r"
  then have h: "select_config d name = Some c"
      "\<not> front_route_gate c (select_ride d r1) (select_ride d r2)"
      "calculate_pool_viability_score E d r1 r2 name = Inr r"
    by simp_all
  show "\<exists>m t. measurements E (select_ride d r1) (select_ride d r2) = Inr m \<and>
         total_score r = Some t \<and> 0 \<le> t \<and> t \<le> 100 \<and>
         is_viable r = Some (min_viable_score c \<le> t \<and> exceeded_thresholds c m = []) \<and>
         (rejection_reason r = None \<longleftrightarrow> exceeded_thresholds c m = []) \<and>
         (exceeded_thresholds c m = [Time] \<longrightarrow>
            rejection_reason r =
              Some (time_message (m_time_diff_minutes m) (max_time_difference_minutes c)))"
    by (rule scored_viability[OF h])
next
  show "map_sum id (\<lambda>r. (total_score r, is_viable r, rejection_reason r))
      (calculate_pool_viability_score grid_env rides_db (Some 1) (Some 3) ''default'') =
      Inr (Some 75, Some False,
           Some ''Requests too far apart in time: 11 minutes (max: 10 minutes)'')"
    by code_simp
next
  show "min_viable_score default_config \<le> 75" by code_simp
qed

theorem viability_rule_witness:
  "select_config rides_db ''default'' = Some default_config \<and>
   \<not> front_route_gate default_config (select_ride rides_db (Some 1))
        (select_ride rides_db (Some 3)) \<and>
   map_sum id (\<lambda>r. (total_score r, is_viable r, rejection_reason r))
     (calculate_pool_viability_score grid_env rides_db (Some 1) (Some 3) ''default'') =
     Inr (Some 75, Some False,
          Some ''Requests too far apart in time: 11 minutes (max: 10 minutes)'') \<and>
   map_sum id (exceeded_thresholds default_config)
     (measurements grid_env (select_ride rides_db (Some 1)) (select_ride rides_db (Some 3))) =
     Inr [Time] \<and>
   (\<exists>r m t. calculate_pool_viability_score grid_env rides_db (Some 1) (Some 3) ''default'' = Inr r \<and>
      measurements grid_env (select_ride rides_db (Some 1)) (select_ride rides_db (Some 3)) = Inr m \<and>
      total_score r = Some t \<and> 0 \<le> t \<and> t \<le> 100 \<and>
      is_viable r = Some (min_viable_score default_config \<le> t \<and>
                          exceeded_thresholds default_config m = []) \<and>
      exceeded_thresholds default_config m = [Time] \<and>
      rejection_reason r =
        Some (time_message (m_time_diff_minutes m) (max_time_difference_minutes default_config)))"
proof -
  let ?c = "calculate_pool_viability_score grid_env rides_db (Some 1) (Some 3) ''default''"
  let ?m = "measurements grid_env (select_ride rides_db (Some 1)) (select_ride rides_db (Some 3))"
  have h1: "select_config rides_db ''default'' = Some default_config" by code_simp
  have h2: "\<not> front_route_gate default_config (select_ride rides_db (Some 1))
        (select_ride rides_db (Some 3))" by code_simp
  have h3: "map_sum id (\<lambda>r. (total_score r, is_viable r, rejection_reason r)) ?c =
     Inr (Some 75, Some False,
          Some ''Requests too far apart in time: 11 minutes (max: 10 minutes)'')" by code_simp
  have h5: "map_sum id (exceeded_thresholds default_config) ?m = Inr [Time]" by code_simp
  from h3 obtain r where h4: "?c = Inr r" by (cases ?c) auto
  from viability_rule h1 h2 h4
  obtain m t where
    m: "?m = Inr m" and t: "total_score r = Some t" "0 \<le> t" "t \<le> 100" and
    v: "is_viable r = Some (min_viable_score default_config \<le> t \<and>
                          exceeded_thresholds default_config m = [])" and
    e: "exceeded_thresholds default_config m = [Time] \<longrightarrow>
          rejection_reason r =
            Some (time_message (m_time_diff_minutes m)
                    (max_time_difference_minutes default_config))"
    by blast
  from h5 have x: "exceeded_thresholds default_config m = [Time]" unfolding m by simp
  with e have rr: "rejection_reason r =
            Some (time_message (m_time_diff_minutes m)
                    (max_time_difference_minutes default_config))" by simp
  have "\<exists>r m t. ?c = Inr r \<and> ?m = Inr m \<and>
      total_score r = Some t \<and> 0 \<le> t \<and> t \<le> 100 \<and>
      is_viable r = Some (min_viable_score default_config \<le> t \<and>
                          exceeded_thresholds default_config m = []) \<and>
      exceeded_thresholds default_config m = [Time] \<and>
      rejection_reason r =
        Some (time_message (m_time_diff_minutes m) (max_time_difference_minutes default_config))"
    by (intro exI[of _ r] exI[of _ m] exI[of _ t] conjI) (rule h4 m t v x rr)+
  with h1 h2 h3 h5 show ?thesis by (intro conjI)
qed

text \<open>
  Claim C5: when the active configuration has \<open>front_route_only\<close> set and at least one of
  the two requests is not on the front route, the engine returns score 0, not viable, an
  empty breakdown and the reason \<open>One or both riders are not on the front route\<close>.  The
  result is the same for every distance function and every pair of locations: no distance
  is computed.
\<close>

theorem front_route_gate_rejects:
  assumes "select_config d p_config_name = Some c"
      and "front_route_only c = Some True"
      and "fld is_on_front_route (select_ride d p_ride1_id) = Some False \<or>
           fld is_on_front_route (select_ride d p_ride2_id) = Some False"
  shows "calculate_pool_viability_score E d p_ride1_id p_ride2_id p_config_name =
           Inr \<lparr>total_score = Some 0, is_viable = Some False, breakdown = JObject [],
                rejection_reason = Some ''One or both riders are not on the front route''\<rparr>"
proof -
  have "is_true (sql_and (front_route_only c)
          (sql_or (sql_not (fld is_on_front_route (select_ride d p_ride1_id)))
                  (sql_not (fld is_on_front_route (select_ride d p_ride2_id)))))"
    using assms(2,3) by (auto simp: is_true_def sql_and_def sql_or_def sql_not_def)
  then show ?thesis
    by (simp add: calculate_pool_viability_score_def assms(1))
qed

theorem front_route_gate_rejects_witness:
  "select_config rides_db ''default'' = Some default_config \<and>
   front_route_only default_config = Some True \<and>
   fld is_on_front_route (select_ride rides_db (Some 4)) = Some False \<and>
   calculate_pool_viability_score grid_env rides_db (Some 5) (Some 4) ''default'' =
     Inr \<lparr>total_score = Some 0, is_viable = Some False, breakdown = JObject [],
          rejection_reason = Some ''One or both riders are not on the front route''\<rparr>"
proof -
  have h1: "select_config rides_db ''default'' = Some default_config" by code_simp
  have h2: "front_route_only default_config = Some True" by code_simp
  have h3: "fld is_on_front_route (select_ride rides_db (Some 4)) = Some False" by code_simp
  from front_route_gate_rejects[OF h1 h2 disjI2[OF h3], of grid_env "Some 5"] h1 h2 h3
  show ?thesis by simp
qed

text \<open>
  Claim C4, as stated, fails: under the default configuration rides 1 and 2, with the same
  pickup, the same dropoff and the same creation time, score 90, not 100.  The detour
  weight is a penalty, so the four positive weights add up to 90.
\<close>

theorem identical_requests_counterexample:
  "select_config rides_db ''default'' = Some default_config \<and>
   fld pickup_location (select_ride rides_db (Some 1)) =
     fld pickup_location (select_ride rides_db (Some 2)) \<and>
   fld dropoff_location (select_ride rides_db (Some 1)) =
     fld dropoff_location (select_ride rides_db (Some 2)) \<and>
   fld ride_created_at (select_ride rides_db (Some 1)) =
     fld ride_created_at (select_ride rides_db (Some 2)) \<and>
   map_sum id (\<lambda>r. (total_score r, is_viable r))
     (calculate_pool_viability_score grid_env rides_db (Some 1) (Some 2) ''default'') =
     Inr (Some 90, Some True)"
  by code_simp

text \<open>
  Claim C4, amended: under the default configuration, for two ride requests that are not
  off the front route, with the same pickup point, the same dropoff point and creation
  times less than thirty seconds apart (0 minutes after rounding), the engine returns
  \<open>is_viable\<close> true with no rejection reason and total score 90; the total is 100 only for
  a trip of length zero, where the detour percent is NULL and \<open>LEAST\<close> skips the NULL sum.
\<close>

theorem identical_requests_score:
  assumes "select_config d name = Some default_config"
      and "select_ride d id1 = Some a" "select_ride d id2 = Some b"
      and "is_on_front_route a \<noteq> Some False" "is_on_front_route b \<noteq> Some False"
      and "pickup_location a = Some p" "pickup_location b = Some p"
      and "dropoff_location a = Some q" "dropoff_location b = Some q"
      and "ride_created_at a = Some ta" "ride_created_at b = Some tb" "\<bar>ta - tb\<bar> < 30"
      and "ST_Distance E p p = 0" "ST_Distance E q q = 0"
  shows "\<exists>r. calculate_pool_viability_score E d id1 id2 name = Inr r \<and>
             total_score r = Some (if ST_Distance E p q = 0 then 100 else 90) \<and>
             is_viable r = Some True \<and> rejection_reason r = None"
proof -
  have "calculate_pool_viability_score E d id1 id2 name =
          score_pair E default_config (Some a) (Some b)"
    using gate_open[OF assms(4,5), of default_config]
    by (simp add: calculate_pool_viability_score_def assms(1,2,3) front_route_gate_def)
  with identical_pair_default[OF assms(6-9) time_diff_zero[OF assms(10-12)] assms(13,14)]
  show ?thesis by simp
qed

theorem identical_requests_score_witness:
  "select_config rides_db ''default'' = Some default_config \<and>
   select_ride rides_db (Some 1) = Some (mk_ride 1 None (0, 0) (3, 4) 0 True) \<and>
   select_ride rides_db (Some 2) = Some (mk_ride 2 None (0, 0) (3, 4) 0 True) \<and>
   ST_Distance grid_env (0, 0) (0, 0) = 0 \<and> ST_Distance grid_env (3, 4) (3, 4) = 0 \<and>
   (\<exists>r. calculate_pool_viability_score grid_env rides_db (Some 1) (Some 2) ''default'' = Inr r \<and>
        total_score r = Some 90 \<and> is_viable r = Some True \<and> rejection_reason r = None)"
proof -
  have h1: "select_config rides_db ''default'' = Some default_config" by code_simp
  have h2: "select_ride rides_db (Some 1) = Some (mk_ride 1 None (0, 0) (3, 4) 0 True)"
    by code_simp
  have h3: "select_ride rides_db (Some 2) = Some (mk_ride 2 None (0, 0) (3, 4) 0 True)"
    by code_simp
  have m1: "ST_Distance grid_env (0, 0) (0, 0) = 0" by code_simp
  have m2: "ST_Distance grid_env (3, 4) (3, 4) = 0" by code_simp
  have m3: "ST_Distance grid_env (0, 0) (3, 4) \<noteq> 0" by code_simp
  from identical_requests_score[OF h1 h2 h3, of "(0, 0)" "(3, 4)" 0 0 grid_env] m1 m2 m3
  have "\<exists>r. calculate_pool_viability_score grid_env rides_db (Some 1) (Some 2) ''default'' = Inr r \<and>
        total_score r = Some 90 \<and> is_viable r = Some True \<and> rejection_reason r = None"
    by (simp add: mk_ride_def)
  with h1 h2 h3 m1 m2 show ?thesis by blast
qed

section \<open>Joining a pool: claims\<close>

text \<open>
  Claim C6, as stated, fails: \<open>can_join_pool\<close> reads neither the pool's row nor the ride's
  preferences.  Pool 1 has started and is full (2 of 2 seats) and is for cars; ride 8 asks
  for a CNG; the answer is \<open>can_join\<close> true, from the score against ride 1.
\<close>

theorem join_rejection_counterexample:
  "map_option (\<lambda>p. (status p, current_passengers p, max_passengers p, pool_vehicle_type p))
     (select_pool full_pool_db 1) = Some (STARTED, 2, 2, CAR) \<and>
   map_option preferred_vehicle_type (select_ride full_pool_db (Some 8)) = Some CNG \<and>
   map_sum id (\<lambda>r. (can_join r, cj_viability_score r))
     (can_join_pool grid_env full_pool_db 1 (Some 8) ''default'') = Inr (Some True, Some 90)"
  by code_simp

text \<open>
  Claim C6, amended: \<open>can_join_pool\<close> makes no check of capacity, pool status, vehicle class
  or gender restriction.  Its answer is the same whatever the \<open>pools\<close> table holds and
  whatever vehicle class and gender restriction the rides prefer; when the pool has no
  eligible active member the answer is \<open>can_join\<close> true with score 100, and otherwise it
  is the Scoring Engine's verdict against the member found.
\<close>

theorem can_join_pool_checks_nothing:
  "can_join_pool E (d\<lparr>pools := ps, rides := map (set_preferences vt g) (rides d)\<rparr>)
     p_pool_id p_new_ride_id name =
   can_join_pool E d p_pool_id p_new_ride_id name \<and>
   (v_existing_ride_id d p_pool_id name = None \<longrightarrow>
    can_join_pool E d p_pool_id p_new_ride_id name =
      Inr \<lparr>can_join = Some True, cj_viability_score = Some 100, cj_score_breakdown = JObject [],
           cj_rejection_reason = Some ''First member - auto-approved''\<rparr>) \<and>
   (\<forall>existing. v_existing_ride_id d p_pool_id name = Some existing \<longrightarrow>
    can_join_pool E d p_pool_id p_new_ride_id name =
      ebind (calculate_pool_viability_score E d (Some existing) p_new_ride_id name)
        (\<lambda>v. Inr \<lparr>can_join = is_viable v, cj_viability_score = total_score v,
                   cj_score_breakdown = breakdown v,
                   cj_rejection_reason = rejection_reason v\<rparr>))"
proof -
  have v: "v_existing_ride_id (d\<lparr>pools := ps, rides := map (set_preferences vt g) (rides d)\<rparr>)
             p_pool_id name = v_existing_ride_id d p_pool_id name"
    by (simp add: v_existing_ride_id_def select_config_def)
  have "can_join_pool E (d\<lparr>pools := ps, rides := map (set_preferences vt g) (rides d)\<rparr>)
          p_pool_id p_new_ride_id name = can_join_pool E d p_pool_id p_new_ride_id name"
    unfolding can_join_pool_def v score_ignores_pools_and_preferences ..
  then show ?thesis by (simp add: can_join_pool_def)
qed

theorem can_join_pool_checks_nothing_witness:
  "v_existing_ride_id rides_db 1 ''default'' = None \<and>
   can_join_pool grid_env rides_db 1 (Some 1) ''default'' =
     Inr \<lparr>can_join = Some True, cj_viability_score = Some 100, cj_score_breakdown = JObject [],
          cj_rejection_reason = Some ''First member - auto-approved''\<rparr> \<and>
   can_join_pool grid_env
     (rides_db\<lparr>pools := [mk_pool 1 CANCELLED None 4 4],
               rides := map (set_preferences (\<lambda>r. CNG) (\<lambda>r. None)) (rides rides_db)\<rparr>)
     1 (Some 1) ''default'' =
   can_join_pool grid_env rides_db 1 (Some 1) ''default''"
proof -
  have h: "v_existing_ride_id rides_db 1 ''default'' = None" by code_simp
  from can_join_pool_checks_nothing[where E = grid_env and d = rides_db
         and ps = "[mk_pool 1 CANCELLED None 4 4]" and vt = "\<lambda>r. CNG" and g = "\<lambda>r. None"
         and p_pool_id = 1 and p_new_ride_id = "Some 1" and name = "''default''"] h
  show ?thesis by simp
qed




section \<open>Driver search and vehicle locations: claims\<close>




text \<open>
  Claim C10: when \<open>update_driver_location\<close> completes, a vehicle id was given and the table
  is the old one with every sample of that vehicle that was active marked inactive,
  followed by the new sample; the new sample is the only sample of the vehicle with
  \<open>is_active\<close> true, it carries the returned id and no other row does, and its
  \<open>is_available\<close> is true exactly when no pool id was given.
\<close>

theorem record_location_supersedes:
  assumes "update_driver_location E now new_id d p_driver_id p_vehicle_id p_current_lat
             p_current_lng p_heading p_speed_kmh p_accuracy_meters p_pool_id = Inr (lid, d')"
  shows "\<exists>NEW vid. p_vehicle_id = Some vid \<and>
          vehicle_locations d' =
            map (\<lambda>vl. if loc_vehicle_id vl = vid \<and> loc_is_active vl = Some True
                       then vl\<lparr>loc_is_active := Some False\<rparr> else vl)
              (vehicle_locations d) @ [NEW] \<and>
          loc_id NEW = lid \<and> loc_vehicle_id NEW = vid \<and>
          loc_is_active NEW = Some True \<and>
          is_available NEW = Some (p_pool_id = None) \<and>
          filter (\<lambda>vl. loc_vehicle_id vl = vid \<and> loc_is_active vl = Some True)
            (vehicle_locations d') = [NEW] \<and>
          filter (\<lambda>vl. loc_id vl = lid) (vehicle_locations d') = [NEW]"
proof -
  let ?off = "\<lambda>vid. map (\<lambda>vl. if loc_vehicle_id vl = vid \<and> loc_is_active vl = Some True
                               then vl\<lparr>loc_is_active := Some False\<rparr> else vl)
                      (vehicle_locations d)"
  let ?raw = "map (\<lambda>vl. if Some (loc_vehicle_id vl) = p_vehicle_id \<and>
                               is_true (sql_eq (loc_is_active vl) (Some True))
                            then vl\<lparr>loc_is_active := Some False\<rparr> else vl)
                   (vehicle_locations d)"
  from assms have nd: "\<not> is_true (sql_not (fld is_driver
                         (find (\<lambda>u. Some (user_id u) = p_driver_id) (users d))))"
    by (auto simp: update_driver_location_def Let_def split: if_splits)
  from assms nd obtain lat lng hd sp where
    a: "(case p_vehicle_id of
           None \<Rightarrow> Inl (NotNullViolation ''vehicle_id'')
         | Some vid \<Rightarrow>
         case p_driver_id of
           None \<Rightarrow> Inl (NotNullViolation ''driver_id'')
         | Some did \<Rightarrow>
         case lat of
           None \<Rightarrow> Inl (NotNullViolation ''current_lat'')
         | Some v_lat \<Rightarrow>
         case lng of
           None \<Rightarrow> Inl (NotNullViolation ''current_lng'')
         | Some v_lng \<Rightarrow>
             if (case hd of None \<Rightarrow> False | Some h \<Rightarrow> \<not> (0 \<le> h \<and> h < 360))
             then Inl (CheckViolation ''valid_heading'')
             else if (case sp of None \<Rightarrow> False | Some v \<Rightarrow> \<not> 0 \<le> v)
             then Inl (CheckViolation ''valid_speed'')
             else if list_ex (\<lambda>vl. loc_id vl = new_id) (vehicle_locations d)
             then Inl (UniqueViolation ''vehicle_locations_pkey'')
             else if \<not> list_ex (\<lambda>v. vehicle_id v = vid) (vehicles d)
             then Inl (ForeignKeyViolation ''vehicle_locations_vehicle_id_fkey'')
             else if \<not> list_ex (\<lambda>u. user_id u = did) (users d)
             then Inl (ForeignKeyViolation ''vehicle_locations_driver_id_fkey'')
             else if (case p_pool_id of
                        None \<Rightarrow> False
                      | Some pid \<Rightarrow> \<not> list_ex (\<lambda>q. pool_id q = pid) (pools d))
             then Inl (ForeignKeyViolation ''fk_vehicle_locations_pool_id'')
             else Inr (new_id, d\<lparr>vehicle_locations := ?raw @
                   [\<lparr>loc_id = new_id, loc_vehicle_id = vid, loc_driver_id = did,
                     loc_pool_id = p_pool_id, current_lat = v_lat, current_lng = v_lng,
                     current_location = Some (ST_MakePoint E v_lng v_lat), heading = hd, speed_kmh = sp,
                     accuracy_meters = p_accuracy_meters, loc_is_active = Some True,
                     is_available = Some (p_pool_id = None), recorded_at = Some now\<rparr>]\<rparr>)) =
        Inr (lid, d')"
    unfolding update_driver_location_def Let_def
    by (simp add: ebind_Inr_iff) blast
  from a obtain vid where v: "p_vehicle_id = Some vid" by (cases p_vehicle_id) simp_all
  from a v obtain did where dr: "p_driver_id = Some did" by (cases p_driver_id) simp_all
  from a v dr obtain v_lat where la: "lat = Some v_lat" by (cases lat) simp_all
  from a v dr la obtain v_lng where lo: "lng = Some v_lng" by (cases lng) simp_all
  let ?NEW = "\<lparr>loc_id = new_id, loc_vehicle_id = vid, loc_driver_id = did,
                     loc_pool_id = p_pool_id, current_lat = v_lat, current_lng = v_lng,
                     current_location = Some (ST_MakePoint E v_lng v_lat), heading = hd, speed_kmh = sp,
                     accuracy_meters = p_accuracy_meters, loc_is_active = Some True,
                     is_available = Some (p_pool_id = None), recorded_at = Some now\<rparr>"
  have off: "?raw = ?off vid" unfolding v by (simp add: is_true_eq_True)
  from a have r: "lid = new_id"
      "\<not> list_ex (\<lambda>vl. loc_id vl = new_id) (vehicle_locations d)"
      "d' = d\<lparr>vehicle_locations := ?off vid @ [?NEW]\<rparr>"
    unfolding off unfolding v dr la lo by (auto split: if_splits)
  show ?thesis
  proof (intro exI[of _ ?NEW] exI[of _ vid] conjI)
    show "p_vehicle_id = Some vid" by (rule v)
    show "vehicle_locations d' = ?off vid @ [?NEW]" unfolding r(3) by simp
    show "loc_id ?NEW = lid" unfolding r(1) by simp
    show "loc_vehicle_id ?NEW = vid" by simp
    show "loc_is_active ?NEW = Some True" by simp
    show "is_available ?NEW = Some (p_pool_id = None)" by simp
    show "filter (\<lambda>vl. loc_vehicle_id vl = vid \<and> loc_is_active vl = Some True)
            (vehicle_locations d') = [?NEW]"
      unfolding r(3) by (simp add: deactivated_none_active)
    show "filter (\<lambda>vl. loc_id vl = lid) (vehicle_locations d') = [?NEW]"
      unfolding r(3) r(1) by (simp add: deactivated_keeps_ids[OF r(2)])
  qed
qed

theorem record_location_supersedes_witness:
  "update_driver_location grid_env 100 2 loc_db (Some 9) (Some 5) (Some 1) (Some 2) None None None (Some 1) =
     Inr (2, loc_db\<lparr>vehicle_locations :=
               [sample_1\<lparr>loc_is_active := Some False\<rparr>,
                (mk_sample 2 5 9 (2, 1) 100)\<lparr>loc_pool_id := Some 1, is_available := Some False\<rparr>]\<rparr>) \<and>
   update_driver_location grid_env 100 2 loc_db (Some 9) (Some 5) (Some 1) (Some 2)
       (Some (- 1 / 1000)) (Some (- 1 / 1000)) None None =
     Inr (2, loc_db\<lparr>vehicle_locations :=
               [sample_1\<lparr>loc_is_active := Some False\<rparr>,
                (mk_sample 2 5 9 (2, 1) 100)\<lparr>heading := Some 0, speed_kmh := Some 0\<rparr>]\<rparr>) \<and>
   (\<exists>NEW. vehicle_locations (loc_db\<lparr>vehicle_locations :=
               [sample_1\<lparr>loc_is_active := Some False\<rparr>,
                (mk_sample 2 5 9 (2, 1) 100)\<lparr>loc_pool_id := Some 1, is_available := Some False\<rparr>]\<rparr>) =
            map (\<lambda>vl. if loc_vehicle_id vl = 5 \<and> loc_is_active vl = Some True
                       then vl\<lparr>loc_is_active := Some False\<rparr> else vl)
              (vehicle_locations loc_db) @ [NEW] \<and>
          loc_id NEW = 2 \<and> loc_is_active NEW = Some True \<and> is_available NEW = Some False) \<and>
   (\<exists>NEW. vehicle_locations (loc_db\<lparr>vehicle_locations :=
               [sample_1\<lparr>loc_is_active := Some False\<rparr>,
                (mk_sample 2 5 9 (2, 1) 100)\<lparr>heading := Some 0, speed_kmh := Some 0\<rparr>]\<rparr>) =
            map (\<lambda>vl. if loc_vehicle_id vl = 5 \<and> loc_is_active vl = Some True
                       then vl\<lparr>loc_is_active := Some False\<rparr> else vl)
              (vehicle_locations loc_db) @ [NEW] \<and>
          loc_id NEW = 2 \<and> loc_is_active NEW = Some True \<and> is_available NEW = Some True)"
proof -
  have h: "update_driver_location grid_env 100 2 loc_db (Some 9) (Some 5) (Some 1) (Some 2)
             None None None (Some 1) =
     Inr (2, loc_db\<lparr>vehicle_locations :=
               [sample_1\<lparr>loc_is_active := Some False\<rparr>,
                (mk_sample 2 5 9 (2, 1) 100)\<lparr>loc_pool_id := Some 1, is_available := Some False\<rparr>]\<rparr>)"
    by code_simp
  have g: "update_driver_location grid_env 100 2 loc_db (Some 9) (Some 5) (Some 1) (Some 2)
       (Some (- 1 / 1000)) (Some (- 1 / 1000)) None None =
     Inr (2, loc_db\<lparr>vehicle_locations :=
               [sample_1\<lparr>loc_is_active := Some False\<rparr>,
                (mk_sample 2 5 9 (2, 1) 100)\<lparr>heading := Some 0, speed_kmh := Some 0\<rparr>]\<rparr>)"
    by code_simp
  from record_location_supersedes[OF h] record_location_supersedes[OF g] h g
  show ?thesis by auto
qed

section \<open>The pool state machine: claims\<close>

text \<open>
  Claim C2: for every database and every sequence of membership changes (insert, update,
  delete), driver changes and Recompute invocations, each statement rolled back when it
  raises, every pool row that was STARTED, COMPLETED or CANCELLED has that same status
  afterwards.  The same holds of every single event and of both recompute functions.  The
  statement that cancels a pool, the one explicit cancellation, leaves a terminal status as
  it was or makes it CANCELLED.
\<close>

theorem terminal_statuses_are_sticky:
  "terminal_kept d (run E d evs) \<and>
   (\<forall>now ev d'. perform E now d ev = Inr d' \<longrightarrow> terminal_kept d d') \<and>
   (\<forall>pid d'. sync_pool_status d pid = Inr d' \<longrightarrow> terminal_kept d d') \<and>
   (\<forall>pid d'. sync_pool_status_internal d pid = Inr d' \<longrightarrow> terminal_kept d d') \<and>
   (\<forall>now pid d'. cancel_pool now d pid = Inr d' \<longrightarrow> terminal_sticky d d')"
  using run_kept perform_kept sync_pool_status_kept sync_pool_status_internal_kept
    cancel_pool_sticky
  by blast

theorem terminal_statuses_are_sticky_witness:
  "terminal_kept started_db
     (run grid_env started_db
        [(700, MemberUpdate 2 (\<lambda>m. m\<lparr>left_at := Some 700\<rparr>)), (701, Recompute 1),
         (702, DriverChange 1 (Some 8) (Some 8)), (703, MemberDelete 1),
         (704, MemberInsert (mk_member 3 1 704 None))]) \<and>
   map status (pools started_db) = [STARTED] \<and>
   map status (pools (run grid_env started_db
        [(700, MemberUpdate 2 (\<lambda>m. m\<lparr>left_at := Some 700\<rparr>)), (701, Recompute 1),
         (702, DriverChange 1 (Some 8) (Some 8)), (703, MemberDelete 1),
         (704, MemberInsert (mk_member 3 1 704 None))])) = [STARTED] \<and>
   map member_id (pool_members (run grid_env started_db
        [(700, MemberUpdate 2 (\<lambda>m. m\<lparr>left_at := Some 700\<rparr>)), (701, Recompute 1),
         (702, DriverChange 1 (Some 8) (Some 8)), (703, MemberDelete 1),
         (704, MemberInsert (mk_member 3 1 704 None))])) = [2, 3] \<and>
   perform grid_env 700 started_db (MemberInsert (mk_member 3 1 700 None)) =
     Inl (InvalidParameterValue ''unrecognized format() type specifier'') \<and>
   run grid_env started_db [(700, MemberInsert (mk_member 3 1 700 None))] = started_db \<and>
   sync_pool_status_internal started_db 1 = Inr started_db \<and>
   terminal_kept started_db started_db \<and>
   map_sum id (\<lambda>d'. map status (pools d')) (sync_pool_status started_db 1) = Inr [STARTED] \<and>
   map_sum id (\<lambda>d'. map status (pools d')) (cancel_pool 700 started_db 1) = Inr [CANCELLED] \<and>
   (\<exists>d'. cancel_pool 700 started_db 1 = Inr d' \<and> terminal_sticky started_db d') \<and>
   (\<exists>d'. sync_pool_status started_db 1 = Inr d' \<and> terminal_kept started_db d')"
proof -
  let ?evs = "[(700, MemberUpdate 2 (\<lambda>m. m\<lparr>left_at := Some 700\<rparr>)), (701, Recompute 1),
         (702, DriverChange 1 (Some 8) (Some 8)), (703, MemberDelete 1),
         (704, MemberInsert (mk_member 3 1 704 None))]"
  have h1: "map status (pools started_db) = [STARTED]" by code_simp
  have h2: "map status (pools (run grid_env started_db ?evs)) = [STARTED]" by code_simp
  have h3: "map member_id (pool_members (run grid_env started_db ?evs)) = [2, 3]" by code_simp
  have h4: "perform grid_env 700 started_db (MemberInsert (mk_member 3 1 700 None)) =
     Inl (InvalidParameterValue ''unrecognized format() type specifier'')" by code_simp
  have h5: "run grid_env started_db [(700, MemberInsert (mk_member 3 1 700 None))] = started_db"
    by code_simp
  have h6: "sync_pool_status_internal started_db 1 = Inr started_db" by code_simp
  have h7: "map_sum id (\<lambda>d'. map status (pools d')) (sync_pool_status started_db 1) =
              Inr [STARTED]" by code_simp
  have h8: "map_sum id (\<lambda>d'. map status (pools d')) (cancel_pool 700 started_db 1) =
              Inr [CANCELLED]" by code_simp
  from h7 obtain s where s: "sync_pool_status started_db 1 = Inr s"
    by (cases "sync_pool_status started_db 1") auto
  from h8 obtain c where c: "cancel_pool 700 started_db 1 = Inr c"
    by (cases "cancel_pool 700 started_db 1") auto
  note t = terminal_statuses_are_sticky[of started_db grid_env ?evs]
  from t have k1: "terminal_kept started_db (run grid_env started_db ?evs)" by (rule conjunct1)
  from t h6 have k2: "terminal_kept started_db started_db" by blast
  from t c have k3: "\<exists>d'. cancel_pool 700 started_db 1 = Inr d' \<and> terminal_sticky started_db d'"
    by blast
  from t s have k4: "\<exists>d'. sync_pool_status started_db 1 = Inr d' \<and> terminal_kept started_db d'"
    by blast
  show ?thesis
    by (intro conjI) (rule k1 h1 h2 h3 h4 h5 h6 k2 h7 h8 k3 k4)+
qed

text \<open>
  Claim C3, as stated, fails: the statement that cancels a pool carries no reason and the
  cascade writes the fixed text \<open>Pool was cancelled\<close>, whatever the cancellation was for.
  On \<open>forming_db\<close> the cancellation of pool 1 cancels rides 2 and 3 with that text, ends
  the membership of user 2, and inserts no notification.
\<close>

theorem cancellation_cascade_counterexample:
  "map (\<lambda>r. (ride_id r, ride_status r, cancelled_reason r)) (rides forming_db) =
     [(1, RIDE_CANCELLED, Some ''Changed plans''), (2, IN_POOL, None), (3, IN_POOL, None)] \<and>
   map (\<lambda>m. (member_user_id m, left_at m)) (pool_members forming_db) =
     [(1, Some 15), (2, None)] \<and>
   notifications forming_db = [] \<and>
   map_sum id
     (\<lambda>d'. (map status (pools d'),
            map (\<lambda>r. (ride_id r, ride_status r, cancelled_reason r)) (rides d'),
            map (\<lambda>m. (member_user_id m, left_at m)) (pool_members d'),
            notifications d'))
     (cancel_pool 700 forming_db 1) =
     Inr ([CANCELLED],
          [(1, RIDE_CANCELLED, Some ''Changed plans''),
           (2, RIDE_CANCELLED, Some ''Pool was cancelled''),
           (3, RIDE_CANCELLED, Some ''Pool was cancelled'')],
          [(1, Some 15), (2, Some 700)],
          [])"
  by code_simp

text \<open>
  Claim C3, amended: on a \<open>pools\<close> table that satisfies its key and its \<open>CHECK\<close>
  constraints, cancelling a pool that exists succeeds and leaves the pool CANCELLED.  When
  the pool was not CANCELLED before, every ride of the pool that is not COMPLETED or
  CANCELLED becomes CANCELLED with the fixed reason \<open>Pool was cancelled\<close>, and every
  membership of the pool with \<open>left_at\<close> null gets \<open>left_at\<close> set to the time of the
  statement; when the pool was CANCELLED already, rides and memberships stay as they
  were.
\<close>

theorem cancellation_cascade:
  assumes "pools_valid d" and "select_pool d pid = Some p"
  shows "\<exists>d'. cancel_pool now d pid = Inr d' \<and>
            map_option status (select_pool d' pid) = Some CANCELLED \<and>
            (status p \<noteq> CANCELLED \<longrightarrow>
               rides d' = map (cancelled_ride pid) (rides d) \<and>
               pool_members d' = map (left_member now pid) (pool_members d)) \<and>
            (status p = CANCELLED \<longrightarrow>
               rides d' = rides d \<and> pool_members d' = pool_members d)"
proof -
  from cancel_pool_effect[OF assms, of now] obtain d' where
    c: "cancel_pool now d pid = Inr d'" and
    s: "map_option status (select_pool d' pid) = Some CANCELLED" and
    t: "status p \<noteq> CANCELLED \<longrightarrow>
          rides d' = map (cancelled_ride pid) (rides d) \<and>
          pool_members d' = map (left_member now pid) (pool_members d)" and
    u: "status p = CANCELLED \<longrightarrow> rides d' = rides d \<and> pool_members d' = pool_members d"
    by blast
  show ?thesis by (intro exI[of _ d'] conjI) (rule c s t u)+
qed

theorem cancellation_cascade_witness:
  "pools_valid forming_db \<and> pools_valid cancelled_db \<and>
   map_option status (select_pool forming_db 1) = Some WAITING_FOR_RIDERS \<and>
   cancel_pool 700 forming_db 1 = Inr cancelled_db \<and>
   map_option status (select_pool cancelled_db 1) = Some CANCELLED \<and>
   rides cancelled_db = map (cancelled_ride 1) (rides forming_db) \<and>
   pool_members cancelled_db = map (left_member 700 1) (pool_members forming_db) \<and>
   map (\<lambda>r. (ride_id r, ride_status r, cancelled_reason r)) (rides cancelled_db) =
     [(1, RIDE_CANCELLED, Some ''Changed plans''),
      (2, RIDE_CANCELLED, Some ''Pool was cancelled''),
      (3, RIDE_CANCELLED, Some ''Pool was cancelled'')] \<and>
   map (\<lambda>m. (member_user_id m, left_at m)) (pool_members cancelled_db) =
     [(1, Some 15), (2, Some 700)] \<and>
   (\<exists>d'. cancel_pool 701 cancelled_db 1 = Inr d' \<and>
         map_option status (select_pool d' 1) = Some CANCELLED \<and>
         rides d' = rides cancelled_db \<and> pool_members d' = pool_members cancelled_db)"
proof -
  let ?p = "mk_pool 1 WAITING_FOR_RIDERS None 1 4"
  let ?q = "(mk_pool 1 CANCELLED None 0 4)\<lparr>pool_deleted_at := Some 700\<rparr>"
  have v1: "pools_valid forming_db" by code_simp
  have v2: "pools_valid cancelled_db" by code_simp
  have s1: "select_pool forming_db 1 = Some ?p" by code_simp
  have s2: "select_pool cancelled_db 1 = Some ?q" by code_simp
  have st1: "status ?p \<noteq> CANCELLED" by code_simp
  have st2: "status ?q = CANCELLED" by code_simp
  have c1: "cancel_pool 700 forming_db 1 = Inr cancelled_db" by code_simp
  have e1: "map (\<lambda>r. (ride_id r, ride_status r, cancelled_reason r)) (rides cancelled_db) =
     [(1, RIDE_CANCELLED, Some ''Changed plans''),
      (2, RIDE_CANCELLED, Some ''Pool was cancelled''),
      (3, RIDE_CANCELLED, Some ''Pool was cancelled'')]" by code_simp
  have e2: "map (\<lambda>m. (member_user_id m, left_at m)) (pool_members cancelled_db) =
     [(1, Some 15), (2, Some 700)]" by code_simp
  have s1': "map_option status (select_pool forming_db 1) = Some WAITING_FOR_RIDERS" by code_simp
  from cancellation_cascade[OF v1 s1, of 700] st1
  have a: "map_option status (select_pool cancelled_db 1) = Some CANCELLED \<and>
           rides cancelled_db = map (cancelled_ride 1) (rides forming_db) \<and>
           pool_members cancelled_db = map (left_member 700 1) (pool_members forming_db)"
    unfolding c1 by auto
  from cancellation_cascade[OF v2 s2, of 701] st2
  have b: "\<exists>d'. cancel_pool 701 cancelled_db 1 = Inr d' \<and>
         map_option status (select_pool d' 1) = Some CANCELLED \<and>
         rides d' = rides cancelled_db \<and> pool_members d' = pool_members cancelled_db"
    by blast
  from a have a1: "map_option status (select_pool cancelled_db 1) = Some CANCELLED"
    and a2: "rides cancelled_db = map (cancelled_ride 1) (rides forming_db)"
    and a3: "pool_members cancelled_db = map (left_member 700 1) (pool_members forming_db)"
    by simp_all
  show ?thesis
    by (intro conjI) (rule v1 v2 s1' c1 a1 a2 a3 e1 e2 b)+
qed

end
